theory Spec2Isabelle
  imports Complex_Main "HOL-Library.AList" "HOL-Library.Char_ord" "HOL-Library.List_Lexorder"
begin

section \<open>Values and tables\<close>

text \<open>
  A float64 is modelled with exact real arithmetic on the finite values and the three
  special values of IEEE 754 that the code handles explicitly (\<open>np.inf\<close>, \<open>-np.inf\<close>,
  \<open>np.nan\<close>). Rounding, overflow and the sign of zero are not modelled.
\<close>

datatype fl = Fin real | PInf | NInf | NaN

text \<open>A table cell: Python \<open>None\<close>, a number, or a string.\<close>

datatype cell = Null | Num fl | Str string

datatype error =
    EmptyInput              \<comment> \<open>"No player data found in the API response"\<close>
  | KeyError                \<comment> \<open>a column that the table does not have\<close>
  | TypeError               \<comment> \<open>an operation on a value of the wrong type\<close>
  | AttributeError          \<comment> \<open>a method of a value that does not have it\<close>
  | ValueError              \<comment> \<open>raised by the numeric library\<close>
  | IndexError              \<comment> \<open>positional access out of range\<close>
  | ProcessError error      \<comment> \<open>"Error processing player data: ..."\<close>
  | NoData                  \<comment> \<open>"No data available for preprocessing"\<close>
  | InsufficientFeatures    \<comment> \<open>"Insufficient features for recommendation"\<close>
  | PreprocessError error   \<comment> \<open>"Error preprocessing data: ..."\<close>
  | TrainError error        \<comment> \<open>"Error training recommendation models: ..."\<close>
  | ModelNotAvailable       \<comment> \<open>"Recommendation model not available"\<close>
  | PlayerNotFound          \<comment> \<open>"Player with ID ... not found"\<close>
  | RecommendError error    \<comment> \<open>"Error generating recommendations: ..."\<close>
  | NoPlayerData            \<comment> \<open>"No player data available"\<close>
  | CriteriaError error     \<comment> \<open>"Error generating criteria-based recommendations: ..."\<close>
  | MetricsError error      \<comment> \<open>"Error calculating metrics: ..."\<close>

text \<open>
  A row is a dictionary from column names to cells, kept as an association list; a
  DataFrame is its column index and its rows in order, with a RangeIndex (the label of a
  row is its position).
\<close>

type_synonym row = "(string \<times> cell) list"

record dataframe =
  columns :: "string list"
  rows :: "row list"

definition cell_of :: "row \<Rightarrow> string \<Rightarrow> cell" where
  "cell_of r c = (case map_of r c of None \<Rightarrow> Null | Some v \<Rightarrow> v)"

fun is_num :: "cell \<Rightarrow> bool" where
  "is_num (Num _) = True"
| "is_num _ = False"

fun is_str :: "cell \<Rightarrow> bool" where
  "is_str (Str _) = True"
| "is_str _ = False"

fun is_finite :: "cell \<Rightarrow> bool" where
  "is_finite (Num (Fin _)) = True"
| "is_finite _ = False"

fun the_fl :: "cell \<Rightarrow> fl" where
  "the_fl (Num x) = x"
| "the_fl _ = NaN"

text \<open>\<open>isna\<close>: what pandas counts as missing.\<close>

fun isna :: "cell \<Rightarrow> bool" where
  "isna Null = True"
| "isna (Num NaN) = True"
| "isna _ = False"

definition series :: "dataframe \<Rightarrow> string \<Rightarrow> cell list" where
  "series df c = map (\<lambda>r. cell_of r c) (rows df)"

text \<open>
  The dtype of a column is read off its cells: a column is numeric when every cell is a
  number (NaN and the infinities included), and has dtype \<open>object\<close> otherwise.
\<close>

definition numeric_col :: "dataframe \<Rightarrow> string \<Rightarrow> bool" where
  "numeric_col df c = list_all is_num (series df c)"

text \<open>\<open>df[c]\<close>: KeyError when the column is absent.\<close>

definition get_col :: "dataframe \<Rightarrow> string \<Rightarrow> error + cell list" where
  "get_col df c = (if c \<in> set (columns df) then Inr (series df c) else Inl KeyError)"

text \<open>\<open>df[c] = values\<close>: overwrites the column, or appends it as the last one.\<close>

definition set_col :: "dataframe \<Rightarrow> string \<Rightarrow> cell list \<Rightarrow> dataframe" where
  "set_col df c vs =
     df\<lparr>columns := (if c \<in> set (columns df) then columns df else columns df @ [c]),
        rows := map (\<lambda>(r, v). AList.update c v r) (zip (rows df) vs)\<rparr>"

text \<open>The truth value of a cell, as \<open>if not x\<close> and \<open>and x\<close> test it.\<close>

fun truthy :: "cell \<Rightarrow> bool" where
  "truthy Null = False"
| "truthy (Str s) = (s \<noteq> [])"
| "truthy (Num (Fin x)) = (x \<noteq> 0)"
| "truthy (Num _) = True"

text \<open>A list of computations run in order; the first exception ends the run.\<close>

fun sequence :: "(error + 'a) list \<Rightarrow> error + 'a list" where
  "sequence [] = Inr []"
| "sequence (x # xs) =
     (case x of Inl e \<Rightarrow> Inl e
      | Inr v \<Rightarrow> (case sequence xs of Inl e \<Rightarrow> Inl e | Inr vs \<Rightarrow> Inr (v # vs)))"

subsection \<open>Float operations\<close>

fun fl_div :: "fl \<Rightarrow> fl \<Rightarrow> fl" where
  "fl_div (Fin a) (Fin b) =
     (if b = 0 then (if a > 0 then PInf else if a < 0 then NInf else NaN) else Fin (a / b))"
| "fl_div (Fin a) PInf = Fin 0"
| "fl_div (Fin a) NInf = Fin 0"
| "fl_div PInf (Fin b) = (if b < 0 then NInf else PInf)"
| "fl_div NInf (Fin b) = (if b < 0 then PInf else NInf)"
| "fl_div _ _ = NaN"

fun fl_mul :: "fl \<Rightarrow> fl \<Rightarrow> fl" where
  "fl_mul (Fin a) (Fin b) = Fin (a * b)"
| "fl_mul (Fin a) PInf = (if a > 0 then PInf else if a < 0 then NInf else NaN)"
| "fl_mul (Fin a) NInf = (if a > 0 then NInf else if a < 0 then PInf else NaN)"
| "fl_mul PInf (Fin b) = (if b > 0 then PInf else if b < 0 then NInf else NaN)"
| "fl_mul NInf (Fin b) = (if b > 0 then NInf else if b < 0 then PInf else NaN)"
| "fl_mul PInf PInf = PInf"
| "fl_mul NInf NInf = PInf"
| "fl_mul PInf NInf = NInf"
| "fl_mul NInf PInf = NInf"
| "fl_mul _ _ = NaN"

text \<open>\<open>x <= y\<close> on floats: every comparison with NaN is false.\<close>

fun fl_le :: "fl \<Rightarrow> fl \<Rightarrow> bool" where
  "fl_le NaN _ = False"
| "fl_le _ NaN = False"
| "fl_le NInf _ = True"
| "fl_le _ PInf = True"
| "fl_le (Fin a) (Fin b) = (a \<le> b)"
| "fl_le _ _ = False"

definition fl_gt :: "fl \<Rightarrow> fl \<Rightarrow> bool" where
  "fl_gt x y = (fl_le y x \<and> \<not> fl_le x y)"

section \<open>Data processor (\<open>models/data_processor.py\<close>)\<close>

record data_processor =
  dp_players_df :: "dataframe option"
  dp_teams_df :: "dataframe option"

subsection \<open>\<open>handle_missing_values\<close>\<close>

text \<open>
  Numeric columns: \<open>fillna(0)\<close>. Columns of dtype \<open>object\<close>: \<open>fillna('')\<close>.
\<close>

definition fill_cell :: "bool \<Rightarrow> cell \<Rightarrow> cell" where
  "fill_cell numeric v = (if isna v then (if numeric then Num (Fin 0) else Str '''') else v)"

definition handle_missing_values :: "dataframe \<Rightarrow> dataframe" where
  "handle_missing_values df =
     df\<lparr>rows := map (\<lambda>r. map (\<lambda>(k, v). (k, fill_cell (numeric_col df k) v)) r) (rows df)\<rparr>"

subsection \<open>\<open>pd.DataFrame(list of dicts)\<close>\<close>

text \<open>
  The constructor takes the keys in order of first appearance as the columns, and infers
  each column's dtype: a column of numbers and \<open>None\<close> with at least one number becomes a
  float column (\<open>None\<close> read as NaN); every other column keeps its objects.
\<close>

definition infer_col :: "row list \<Rightarrow> string \<Rightarrow> cell \<Rightarrow> cell" where
  "infer_col rs c v =
     (let vs = map (\<lambda>r. cell_of r c) rs in
      if list_all (\<lambda>x. x = Null \<or> is_num x) vs \<and> list_ex is_num vs \<and> v = Null
      then Num NaN else v)"

definition DataFrame :: "row list \<Rightarrow> dataframe" where
  "DataFrame rs =
     (let cs = remdups (concat (map (map fst) rs)) in
      \<lparr>columns = cs, rows = map (\<lambda>r. map (\<lambda>c. (c, infer_col rs c (cell_of r c))) cs) rs\<rparr>)"

subsection \<open>\<open>process_players_data\<close>\<close>

text \<open>
  The response is unvalidated JSON, so every place where the code expects a dictionary or
  a list may hold something else. The leaves the code copies into the table are JSON
  null, numbers and strings. The values are classified by what the code does with them:

  \<^item> where a dictionary is read with \<open>.get\<close> (the \<open>player\<close> block and the sub-blocks
    \<open>team\<close>, \<open>league\<close>, \<open>games\<close>, ... of a statistics block): a dictionary, or a value
    without \<open>.get\<close> (null, a number, a string, a list);
  \<^item> an element of the statistics list: a dictionary of such sub-blocks, or a value
    without \<open>.get\<close>;
  \<^item> the value under \<open>statistics\<close>, which a \<open>for\<close> loop iterates: the list of its elements
    (for a dictionary or a string these are its keys or characters, which are not
    dictionaries), or a value that cannot be iterated (null, a number);
  \<^item> an element of the response: a dictionary with the keys \<open>player\<close> and \<open>statistics\<close>
    (an absent key is \<open>None\<close> here and is read with the default of the \<open>.get\<close> call), or a
    value without \<open>.get\<close>;
  \<^item> the value under \<open>response\<close>: a null, number or string, or the list of its elements.
\<close>

type_synonym jdict = "(string \<times> cell) list"

datatype jsub = NotDict | Dict jdict

type_synonym stat_block = "(string \<times> jsub) list"

datatype jblock = NotBlock | Block stat_block

datatype jstats = NotIterable | StatList "jblock list"

record raw_entry =
  player :: "jsub option"
  statistics :: "jstats option"

datatype jentry = NotEntry | Entry raw_entry

datatype jresponse = Scalar cell | EntryList "jentry list"

text \<open>\<open>d.get(k)\<close> on a dictionary of leaves.\<close>

definition dget :: "jdict \<Rightarrow> string \<Rightarrow> cell" where
  "dget d k = (case map_of d k of None \<Rightarrow> Null | Some v \<Rightarrow> v)"

text \<open>\<open>stat.get(k, {})\<close>, \<open>player.get('player', {})\<close> and \<open>player.get('statistics', [])\<close>.\<close>

definition sub :: "stat_block \<Rightarrow> string \<Rightarrow> jsub" where
  "sub st k = (case map_of st k of None \<Rightarrow> Dict [] | Some d \<Rightarrow> d)"

definition player_info :: "raw_entry \<Rightarrow> jsub" where
  "player_info e = (case player e of None \<Rightarrow> Dict [] | Some d \<Rightarrow> d)"

definition stats :: "raw_entry \<Rightarrow> jstats" where
  "stats e = (case statistics e of None \<Rightarrow> StatList [] | Some ss \<Rightarrow> ss)"

text \<open>
  The items of the dictionary that the inner loop appends, in the order they are
  evaluated: the column, the object that is read, and the key read from it.
\<close>

definition row_items :: "jsub \<Rightarrow> stat_block \<Rightarrow> (string \<times> jsub \<times> string) list" where
  "row_items info stat =
     [(''player_id'', info, ''id''),
      (''name'', info, ''name''),
      (''firstname'', info, ''firstname''),
      (''lastname'', info, ''lastname''),
      (''age'', info, ''age''),
      (''nationality'', info, ''nationality''),
      (''height'', info, ''height''),
      (''weight'', info, ''weight''),
      (''position'', info, ''position''),
      (''team_id'', sub stat ''team'', ''id''),
      (''team_name'', sub stat ''team'', ''name''),
      (''league_id'', sub stat ''league'', ''id''),
      (''league_name'', sub stat ''league'', ''name''),
      (''appearances'', sub stat ''games'', ''appearances''),
      (''minutes_played'', sub stat ''games'', ''minutes''),
      (''rating'', sub stat ''games'', ''rating''),
      (''shots_total'', sub stat ''shots'', ''total''),
      (''shots_on_target'', sub stat ''shots'', ''on''),
      (''goals_total'', sub stat ''goals'', ''total''),
      (''assists'', sub stat ''goals'', ''assists''),
      (''passes_total'', sub stat ''passes'', ''total''),
      (''passes_accuracy'', sub stat ''passes'', ''accuracy''),
      (''tackles_total'', sub stat ''tackles'', ''total''),
      (''tackles_blocks'', sub stat ''tackles'', ''blocks''),
      (''tackles_interceptions'', sub stat ''tackles'', ''interceptions''),
      (''duels_total'', sub stat ''duels'', ''total''),
      (''duels_won'', sub stat ''duels'', ''won'')]"

text \<open>One item: \<open>obj.get(key)\<close> raises AttributeError when \<open>obj\<close> is not a dictionary.\<close>

definition row_item :: "string \<times> jsub \<times> string \<Rightarrow> error + string \<times> cell" where
  "row_item f =
     (case f of (col, obj, key) \<Rightarrow>
        (case obj of NotDict \<Rightarrow> Inl AttributeError | Dict d \<Rightarrow> Inr (col, dget d key)))"

definition flatten :: "jsub \<Rightarrow> stat_block \<Rightarrow> error + row" where
  "flatten info stat = sequence (map row_item (row_items info stat))"

text \<open>The body of the outer loop for one element of the response.\<close>

definition block_row :: "jsub \<Rightarrow> jblock \<Rightarrow> error + row" where
  "block_row info b = (case b of NotBlock \<Rightarrow> Inl AttributeError | Block stat \<Rightarrow> flatten info stat)"

definition entry_rows :: "jentry \<Rightarrow> error + row list" where
  "entry_rows p =
     (case p of NotEntry \<Rightarrow> Inl AttributeError
      | Entry e \<Rightarrow>
         (case stats e of NotIterable \<Rightarrow> Inl TypeError
          | StatList bs \<Rightarrow> sequence (map (block_row (player_info e)) bs)))"

text \<open>The two nested loops: one dictionary per player and statistics block.\<close>

definition processed_data :: "jentry list \<Rightarrow> error + row list" where
  "processed_data players =
     (case sequence (map entry_rows players) of Inl e \<Rightarrow> Inl e | Inr rss \<Rightarrow> Inr (concat rss))"

text \<open>
  The argument is what \<open>data.get('response', [])\<close> finds: \<open>None\<close> when the key is absent.
  The result is what the method signals (\<open>processing_error\<close> or \<open>processing_complete\<close>)
  and the processor afterwards. An exception anywhere in the body is caught by the
  handler, which signals the error; the table is assigned only after the loops.
\<close>

definition process_players_data ::
  "data_processor \<Rightarrow> jresponse option \<Rightarrow> (error + dataframe) \<times> data_processor" where
  "process_players_data s response =
     (case response of
        None \<Rightarrow> (Inl EmptyInput, s)
      | Some (Scalar c) \<Rightarrow>
          if \<not> truthy c then (Inl EmptyInput, s)
          else (case c of Str _ \<Rightarrow> (Inl (ProcessError AttributeError), s)
                | _ \<Rightarrow> (Inl (ProcessError TypeError), s))
      | Some (EntryList players) \<Rightarrow>
          if players = [] then (Inl EmptyInput, s)
          else
            (case processed_data players of
               Inl e \<Rightarrow> (Inl (ProcessError e), s)
             | Inr rs \<Rightarrow>
                let df = handle_missing_values (DataFrame rs)
                in (Inr df, s\<lparr>dp_players_df := Some df\<rparr>)))"

subsection \<open>\<open>calculate_player_metrics\<close>\<close>

text \<open>
  Arithmetic and comparison on a column work elementwise on a numeric column and raise
  TypeError on a column of dtype \<open>object\<close> (which holds a string or \<open>None\<close>).
\<close>

definition numeric_series :: "cell list \<Rightarrow> error + fl list" where
  "numeric_series vs = (if list_all is_num vs then Inr (map the_fl vs) else Inl TypeError)"

definition num_col :: "dataframe \<Rightarrow> string \<Rightarrow> error + fl list" where
  "num_col df c = (case get_col df c of Inl e \<Rightarrow> Inl e | Inr vs \<Rightarrow> numeric_series vs)"

text \<open>\<open>df['minutes_per_appearance'] = df['minutes_played'] / df['appearances']\<close>\<close>

definition add_minutes_per_appearance :: "dataframe \<Rightarrow> error + dataframe" where
  "add_minutes_per_appearance df =
     (case get_col df ''minutes_played'' of Inl e \<Rightarrow> Inl e | Inr ms \<Rightarrow>
      case get_col df ''appearances'' of Inl e \<Rightarrow> Inl e | Inr as \<Rightarrow>
      case numeric_series ms of Inl e \<Rightarrow> Inl e | Inr mf \<Rightarrow>
      case numeric_series as of Inl e \<Rightarrow> Inl e | Inr af \<Rightarrow>
        Inr (set_col df ''minutes_per_appearance''
               (map (\<lambda>(m, a). Num (fl_div m a)) (zip mf af))))"

text \<open>\<open>df['pass_completion_rate'] = df['passes_accuracy']\<close>\<close>

definition add_pass_completion_rate :: "dataframe \<Rightarrow> error + dataframe" where
  "add_pass_completion_rate df =
     (case get_col df ''passes_accuracy'' of Inl e \<Rightarrow> Inl e
      | Inr vs \<Rightarrow> Inr (set_col df ''pass_completion_rate'' vs))"

text \<open>
  \<open>df[out] = np.where(df[den] > 0, df[num] / df[den] * 100, 0)\<close>: the condition is
  evaluated first, then the quotient, both on whole columns.
\<close>

definition rate :: "fl \<Rightarrow> fl \<Rightarrow> fl" where
  "rate n d = (if fl_gt d (Fin 0) then fl_mul (fl_div n d) (Fin 100) else Fin 0)"

definition add_rate :: "string \<Rightarrow> string \<Rightarrow> string \<Rightarrow> dataframe \<Rightarrow> error + dataframe" where
  "add_rate out den num df =
     (case num_col df den of Inl e \<Rightarrow> Inl e | Inr ds \<Rightarrow>
      case num_col df num of Inl e \<Rightarrow> Inl e | Inr ns \<Rightarrow>
        Inr (set_col df out (map (\<lambda>(n, d). Num (rate n d)) (zip ns ds))))"

text \<open>\<open>df.replace([np.inf, -np.inf], np.nan, inplace=True)\<close>\<close>

fun replace_inf_cell :: "cell \<Rightarrow> cell" where
  "replace_inf_cell (Num PInf) = Num NaN"
| "replace_inf_cell (Num NInf) = Num NaN"
| "replace_inf_cell v = v"

definition replace_inf :: "dataframe \<Rightarrow> dataframe" where
  "replace_inf df = df\<lparr>rows := map (\<lambda>r. map (\<lambda>(k, v). (k, replace_inf_cell v)) r) (rows df)\<rparr>"

text \<open>
  The method on a given table. An exception inside the \<open>try\<close> block is caught: the error
  is signalled and the table is returned as it is at that moment (the assignments are in
  place). The result is the error signalled, if any, and the table returned.
\<close>

definition calculate_player_metrics :: "dataframe \<Rightarrow> error option \<times> dataframe" where
  "calculate_player_metrics df =
     (case add_minutes_per_appearance df of Inl e \<Rightarrow> (Some (MetricsError e), df) | Inr df1 \<Rightarrow>
      case add_pass_completion_rate df1 of Inl e \<Rightarrow> (Some (MetricsError e), df1) | Inr df2 \<Rightarrow>
      case add_rate ''shot_conversion_rate'' ''shots_total'' ''goals_total'' df2 of
        Inl e \<Rightarrow> (Some (MetricsError e), df2) | Inr df3 \<Rightarrow>
      case add_rate ''duels_success_rate'' ''duels_total'' ''duels_won'' df3 of
        Inl e \<Rightarrow> (Some (MetricsError e), df3) | Inr df4 \<Rightarrow>
        (None, handle_missing_values (replace_inf df4)))"

section \<open>Recommender (\<open>models/recommender.py\<close>)\<close>

text \<open>
  The numeric library is used through four operations. Two of them are taken as
  parameters: how a string cell converts to a float when a table is turned into a float
  matrix (\<open>None\<close> when the conversion raises), and the labels that k-means with the fixed
  seed assigns (\<open>None\<close> when it raises). Mean imputation, standardisation and the
  nearest-neighbour search are modelled below from their documented behaviour.
\<close>

record library =
  parse_float :: "string \<Rightarrow> fl option"
  kmeans_fit_predict :: "nat \<Rightarrow> real list list \<Rightarrow> nat list option"

record standard_scaler =
  sc_mean :: "real list"
  sc_scale :: "real list"

record nearest_neighbors =
  n_neighbors :: nat
  fit_X :: "real list list"

record kmeans =
  n_clusters :: nat
  km_labels :: "nat list option"

record recommender =
  knn_model :: "nearest_neighbors option"
  kmeans_model :: "kmeans option"
  feature_columns :: "string list option"
  scaler :: "standard_scaler option"
  players_df :: "dataframe option"

definition init_recommender :: recommender where
  "init_recommender =
     \<lparr>knn_model = None, kmeans_model = None, feature_columns = None, scaler = None,
      players_df = None\<rparr>"

definition set_data :: "recommender \<Rightarrow> dataframe option \<Rightarrow> recommender" where
  "set_data s df = s\<lparr>players_df := df\<rparr>"

definition candidate_features :: "string list" where
  "candidate_features =
     [''age'', ''minutes_played'', ''rating'',
      ''shots_total'', ''shots_on_target'', ''goals_total'', ''assists'',
      ''passes_total'', ''passes_accuracy'', ''tackles_total'',
      ''tackles_blocks'', ''tackles_interceptions'',
      ''duels_total'', ''duels_won'']"

subsection \<open>The preprocessing pipeline\<close>

text \<open>Conversion of a cell to float64: \<open>None\<close> becomes NaN, a string is parsed.\<close>

fun to_float :: "library \<Rightarrow> cell \<Rightarrow> error + fl" where
  "to_float L (Num x) = Inr x"
| "to_float L Null = Inr NaN"
| "to_float L (Str s) = (case parse_float L s of None \<Rightarrow> Inl ValueError | Some x \<Rightarrow> Inr x)"

text \<open>\<open>df[existing_columns]\<close> as a float matrix, column by column.\<close>

definition feature_matrix :: "library \<Rightarrow> dataframe \<Rightarrow> string list \<Rightarrow> error + fl list list" where
  "feature_matrix L df cs = sequence (map (\<lambda>c. sequence (map (to_float L) (series df c))) cs)"

definition mean :: "real list \<Rightarrow> real" where
  "mean xs = sum_list xs / real (length xs)"

definition variance :: "real list \<Rightarrow> real" where
  "variance xs = mean (map (\<lambda>x. (x - mean xs)\<^sup>2) xs)"

fun finite_vals :: "fl list \<Rightarrow> real list" where
  "finite_vals [] = []"
| "finite_vals (Fin x # xs) = x # finite_vals xs"
| "finite_vals (_ # xs) = finite_vals xs"

fun is_inf :: "fl \<Rightarrow> bool" where
  "is_inf PInf = True"
| "is_inf NInf = True"
| "is_inf _ = False"

text \<open>
  \<open>SimpleImputer(strategy='mean')\<close>: the statistic of a column is the mean of its values
  that are not NaN; a column with no such value is dropped; an infinite value is refused.
\<close>

definition imputer_statistic :: "fl list \<Rightarrow> real option" where
  "imputer_statistic col =
     (let vs = finite_vals col in if vs = [] then None else Some (mean vs))"

definition impute_value :: "real \<Rightarrow> fl \<Rightarrow> real" where
  "impute_value m v = (case v of Fin x \<Rightarrow> x | _ \<Rightarrow> m)"

definition imputer_transform :: "real option list \<Rightarrow> fl list list \<Rightarrow> real list list" where
  "imputer_transform st cols =
     concat (map (\<lambda>(m, col). case m of None \<Rightarrow> [] | Some mu \<Rightarrow> [map (impute_value mu) col])
                 (zip st cols))"

text \<open>
  \<open>StandardScaler\<close>: per column the mean and the population standard deviation, a zero
  deviation replaced by 1.
\<close>

definition scaler_fit :: "real list list \<Rightarrow> standard_scaler" where
  "scaler_fit cols =
     \<lparr>sc_mean = map mean cols,
      sc_scale = map (\<lambda>col. let sd = sqrt (variance col) in if sd = 0 then 1 else sd) cols\<rparr>"

definition scaler_transform :: "standard_scaler \<Rightarrow> real list list \<Rightarrow> real list list" where
  "scaler_transform sc cols =
     map (\<lambda>(col, m, sd). map (\<lambda>x. (x - m) / sd) col) (zip cols (zip (sc_mean sc) (sc_scale sc)))"

definition rows_of :: "nat \<Rightarrow> 'a list list \<Rightarrow> 'a list list" where
  "rows_of n cols = map (\<lambda>i. map (\<lambda>col. col ! i) cols) [0..<n]"

text \<open>The state the pipeline fits: the imputer's statistics and the scaler.\<close>

record pipeline_state =
  imp_statistics :: "real option list"
  fitted_scaler :: standard_scaler

definition pipeline_fit :: "fl list list \<Rightarrow> error + pipeline_state" where
  "pipeline_fit cols =
     (if list_ex (list_ex is_inf) cols then Inl ValueError
      else
        let st = map imputer_statistic cols;
            imputed = imputer_transform st cols
        in if imputed = [] then Inl ValueError
           else Inr \<lparr>imp_statistics = st, fitted_scaler = scaler_fit imputed\<rparr>)"

definition pipeline_transform :: "pipeline_state \<Rightarrow> nat \<Rightarrow> fl list list \<Rightarrow> real list list" where
  "pipeline_transform ps n cols =
     rows_of n (scaler_transform (fitted_scaler ps) (imputer_transform (imp_statistics ps) cols))"

text \<open>
  \<open>preprocess_data()\<close> on \<open>self.players_df\<close>. The result is what the method returns
  (the error it signals, or the matrix and the existing columns) and the recommender
  afterwards; the fitted pipeline state is part of the result so that it can be named.
\<close>

definition existing_columns :: "dataframe \<Rightarrow> string list" where
  "existing_columns df = filter (\<lambda>col. col \<in> set (columns df)) candidate_features"

definition preprocess_data ::
  "library \<Rightarrow> recommender \<Rightarrow>
     (error + real list list \<times> string list \<times> pipeline_state) \<times> recommender" where
  "preprocess_data L s =
     (case players_df s of None \<Rightarrow> (Inl NoData, s)
      | Some df \<Rightarrow>
        if rows df = [] then (Inl NoData, s)
        else
          let s1 = s\<lparr>feature_columns := Some candidate_features\<rparr>;
              existing = existing_columns df
          in if length existing < 5 then (Inl InsufficientFeatures, s1)
             else
               (case feature_matrix L df existing of
                  Inl e \<Rightarrow> (Inl (PreprocessError e), s1)
                | Inr cols \<Rightarrow>
                   (case pipeline_fit cols of
                      Inl e \<Rightarrow> (Inl (PreprocessError e), s1)
                    | Inr ps \<Rightarrow>
                       (Inr (pipeline_transform ps (length (rows df)) cols, existing, ps),
                        s1\<lparr>scaler := Some (fitted_scaler ps)\<rparr>))))"

subsection \<open>\<open>train_models\<close>\<close>

definition train_models :: "library \<Rightarrow> recommender \<Rightarrow> error option \<times> recommender" where
  "train_models L s =
     (case preprocess_data L s of
        (Inl e, s1) \<Rightarrow> (Some e, s1)
      | (Inr (X, features, ps), s1) \<Rightarrow>
         let s2 = s1\<lparr>knn_model := Some \<lparr>n_neighbors = min 11 (length X), fit_X = X\<rparr>\<rparr>;
             s3 = s2\<lparr>kmeans_model := Some \<lparr>n_clusters = min 8 (length X), km_labels = None\<rparr>\<rparr>
         in (case kmeans_fit_predict L (min 8 (length X)) X of
               None \<Rightarrow> (Some (TrainError ValueError), s3)
             | Some labels \<Rightarrow>
                let s4 = s3\<lparr>kmeans_model := Some \<lparr>n_clusters = min 8 (length X), km_labels = Some labels\<rparr>\<rparr>
                in (case players_df s4 of
                      None \<Rightarrow> (Some (TrainError TypeError), s4)
                    | Some df \<Rightarrow>
                       if length labels \<noteq> length (rows df) then (Some (TrainError ValueError), s4)
                       else (None, s4\<lparr>players_df :=
                               Some (set_col df ''cluster'' (map (\<lambda>l. Num (Fin (real l))) labels))\<rparr>))))"

subsection \<open>Nearest neighbours\<close>

definition euclidean :: "real list \<Rightarrow> real list \<Rightarrow> real" where
  "euclidean q x = sqrt (sum_list (map (\<lambda>(a, b). (a - b)\<^sup>2) (zip q x)))"

text \<open>
  \<open>kneighbors(q, n_neighbors=k)\<close>: the \<open>k\<close> fitted rows nearest to \<open>q\<close>, as pairs of
  distance and row number in order of distance. The library raises ValueError when \<open>k\<close>
  is not positive, when \<open>k\<close> exceeds the number of fitted rows, and when \<open>q\<close> has another
  number of features than the fitted rows. Rows at equal distance are returned here in
  the order of their row numbers; the library does not fix their order.
\<close>

definition kneighbors :: "nearest_neighbors \<Rightarrow> real list \<Rightarrow> int \<Rightarrow> error + (real \<times> nat) list" where
  "kneighbors m q k =
     (if k \<le> 0 then Inl ValueError
      else if int (length (fit_X m)) < k then Inl ValueError
      else if list_ex (\<lambda>x. length x \<noteq> length q) (fit_X m) then Inl ValueError
      else Inr (take (nat k)
                  (sort_key fst (zip (map (euclidean q) (fit_X m)) [0..<length (fit_X m)]))))"

subsection \<open>\<open>recommend_similar_players\<close>\<close>

text \<open>
  \<open>column == value\<close> on one cell never raises; a missing value (\<open>None\<close>, NaN) equals
  nothing, and a number never equals a string.
\<close>

fun py_eq :: "cell \<Rightarrow> cell \<Rightarrow> bool" where
  "py_eq (Num (Fin a)) (Num (Fin b)) = (a = b)"
| "py_eq (Num PInf) (Num PInf) = True"
| "py_eq (Num NInf) (Num NInf) = True"
| "py_eq (Str a) (Str b) = (a = b)"
| "py_eq _ _ = False"

text \<open>\<open>self.players_df.index[self.players_df['player_id'] == player_id].tolist()\<close>\<close>

definition player_rows :: "dataframe \<Rightarrow> int \<Rightarrow> nat list" where
  "player_rows df player_id =
     filter (\<lambda>i. py_eq (cell_of (rows df ! i) ''player_id'') (Num (Fin (real_of_int player_id))))
            [0..<length (rows df)]"

text \<open>A lazy \<open>train_models()\<close> when no index exists.\<close>

definition lazy_train :: "library \<Rightarrow> recommender \<Rightarrow> recommender" where
  "lazy_train L s = (if knn_model s = None then snd (train_models L s) else s)"

text \<open>\<open>self.players_df.iloc[similar_indices]\<close>: IndexError on a position out of range.\<close>

definition iloc :: "dataframe \<Rightarrow> nat list \<Rightarrow> error + row list" where
  "iloc df is =
     (if list_all (\<lambda>i. i < length (rows df)) is then Inr (map (\<lambda>i. rows df ! i) is)
      else Inl IndexError)"

text \<open>
  What a similarity query emits: the table \<open>similar_players\<close> with its
  \<open>similarity_score\<close> column, and the array \<open>similar_distances\<close> it was computed from.
\<close>

record similarity_result =
  similar_players :: dataframe
  similar_distances :: "real list"

definition recommend_similar_players ::
  "library \<Rightarrow> recommender \<Rightarrow> int \<Rightarrow> int \<Rightarrow> (error + similarity_result) \<times> recommender" where
  "recommend_similar_players L s player_id n_recommendations =
     (let s1 = lazy_train L s in
      case knn_model s1 of None \<Rightarrow> (Inl ModelNotAvailable, s1)
      | Some m \<Rightarrow>
       (case players_df s1 of None \<Rightarrow> (Inl (RecommendError AttributeError), s1)
        | Some df \<Rightarrow>
          if ''player_id'' \<notin> set (columns df) then (Inl (RecommendError KeyError), s1)
          else
           (case player_rows df player_id of [] \<Rightarrow> (Inl PlayerNotFound, s1)
            | player_idx # _ \<Rightarrow>
              (case preprocess_data L s1 of
                 (Inl e, s2) \<Rightarrow> (Inl e, s2)
               | (Inr (X, _, _), s2) \<Rightarrow>
                  (case kneighbors m (X ! player_idx) (n_recommendations + 1) of
                     Inl e \<Rightarrow> (Inl (RecommendError e), s2)
                   | Inr found \<Rightarrow>
                      let similar_indices = map snd (tl found);
                          similar_distances = map fst (tl found)
                      in (case iloc df similar_indices of
                            Inl e \<Rightarrow> (Inl (RecommendError e), s2)
                          | Inr rs \<Rightarrow>
                             (Inr \<lparr>similar_players =
                                     set_col (df\<lparr>rows := rs\<rparr>) ''similarity_score''
                                       (map (\<lambda>d. Num (Fin (1 / (1 + d)))) similar_distances),
                                   similar_distances = similar_distances\<rparr>, s2)))))))"

text \<open>
  The vector the query searches with, \<open>X[player_idx]\<close>, named for the statements below.
\<close>

definition query_vector :: "library \<Rightarrow> recommender \<Rightarrow> int \<Rightarrow> real list option" where
  "query_vector L s player_id =
     (let s1 = lazy_train L s in
      case players_df s1 of None \<Rightarrow> None
      | Some df \<Rightarrow>
         (case player_rows df player_id of [] \<Rightarrow> None
          | player_idx # _ \<Rightarrow>
             (case fst (preprocess_data L s1) of Inl e \<Rightarrow> None
              | Inr (X, _, _) \<Rightarrow> Some (X ! player_idx))))"

subsection \<open>\<open>recommend_by_criteria\<close>\<close>

text \<open>
  \<open>column >= value\<close> and \<open>column <= value\<close> on one cell: numbers compare as floats,
  strings in dictionary order, and every other pairing raises TypeError.
\<close>

fun cell_le :: "cell \<Rightarrow> cell \<Rightarrow> error + bool" where
  "cell_le (Num a) (Num b) = Inr (fl_le a b)"
| "cell_le (Str a) (Str b) = Inr (a \<le> b)"
| "cell_le _ _ = Inl TypeError"

definition cell_ge :: "cell \<Rightarrow> cell \<Rightarrow> error + bool" where
  "cell_ge a b = cell_le b a"

text \<open>\<open>df[mask]\<close> for a mask computed row by row; it raises when a row's test does.\<close>

fun filter_rows :: "(row \<Rightarrow> error + bool) \<Rightarrow> row list \<Rightarrow> error + row list" where
  "filter_rows p [] = Inr []"
| "filter_rows p (r # rs) =
     (case p r of Inl e \<Rightarrow> Inl e
      | Inr b \<Rightarrow> (case filter_rows p rs of Inl e \<Rightarrow> Inl e
                  | Inr rs' \<Rightarrow> Inr (if b then r # rs' else rs')))"

text \<open>
  One item of \<open>criteria.items()\<close> applied to the filtered table. Filtering keeps the
  dtypes of \<open>self.players_df\<close>; comparing a numeric column with a string raises
  TypeError whatever the rows are, and on a column of dtype \<open>object\<close> the cells are
  compared one by one.
\<close>

definition compare_column ::
  "dataframe \<Rightarrow> string \<Rightarrow> cell \<Rightarrow> (cell \<Rightarrow> cell \<Rightarrow> error + bool) \<Rightarrow> row list \<Rightarrow> error + row list" where
  "compare_column df col_name value cmp rs =
     (if numeric_col df col_name \<and> is_str value then Inl TypeError
      else filter_rows (\<lambda>r. cmp (cell_of r col_name) value) rs)"

definition apply_criterion :: "dataframe \<Rightarrow> string \<times> cell \<Rightarrow> row list \<Rightarrow> error + row list" where
  "apply_criterion df kv rs =
     (let key = fst kv; value = snd kv; col_name = drop 4 key in
      if take 4 key = ''min_'' \<and> value \<noteq> Null then
        (if col_name \<in> set (columns df) then compare_column df col_name value cell_ge rs
         else Inr rs)
      else if take 4 key = ''max_'' \<and> value \<noteq> Null then
        (if col_name \<in> set (columns df) then compare_column df col_name value cell_le rs
         else Inr rs)
      else Inr rs)"

fun apply_criteria :: "dataframe \<Rightarrow> (string \<times> cell) list \<Rightarrow> row list \<Rightarrow> error + row list" where
  "apply_criteria df [] rs = Inr rs"
| "apply_criteria df (kv # kvs) rs =
     (case apply_criterion df kv rs of Inl e \<Rightarrow> Inl e
      | Inr rs' \<Rightarrow> apply_criteria df kvs rs')"

text \<open>
  \<open>sort_values(by='rating', ascending=False)\<close>: missing values last; a column that mixes
  numbers and strings cannot be ordered. Rows of equal rating keep their order here.
\<close>

fun insert_by :: "('a \<Rightarrow> 'a \<Rightarrow> bool) \<Rightarrow> 'a \<Rightarrow> 'a list \<Rightarrow> 'a list" where
  "insert_by le x [] = [x]"
| "insert_by le x (y # ys) = (if le x y then x # y # ys else y # insert_by le x ys)"

definition sort_by :: "('a \<Rightarrow> 'a \<Rightarrow> bool) \<Rightarrow> 'a list \<Rightarrow> 'a list" where
  "sort_by le xs = foldr (insert_by le) xs []"

fun rating_ge :: "cell \<Rightarrow> cell \<Rightarrow> bool" where
  "rating_ge (Num a) (Num b) = fl_le b a"
| "rating_ge (Str a) (Str b) = (b \<le> a)"
| "rating_ge _ _ = False"

definition sort_by_rating :: "row list \<Rightarrow> error + row list" where
  "sort_by_rating rs =
     (let present = filter (\<lambda>r. \<not> isna (cell_of r ''rating'')) rs;
          missing = filter (\<lambda>r. isna (cell_of r ''rating'')) rs
      in if list_all (\<lambda>r. is_num (cell_of r ''rating'')) present
            \<or> list_all (\<lambda>r. is_str (cell_of r ''rating'')) present
         then Inr (sort_by (\<lambda>a b. rating_ge (cell_of a ''rating'') (cell_of b ''rating'')) present
                   @ missing)
         else Inl TypeError)"

text \<open>\<open>head(n)\<close>: the first \<open>n\<close> rows, or all but the last \<open>-n\<close> for a negative \<open>n\<close>.\<close>

definition head :: "int \<Rightarrow> 'a list \<Rightarrow> 'a list" where
  "head n xs = (if 0 \<le> n then take (nat n) xs else take (length xs - nat (- n)) xs)"

definition recommend_by_criteria ::
  "recommender \<Rightarrow> (string \<times> cell) list \<Rightarrow> int \<Rightarrow> error + dataframe" where
  "recommend_by_criteria s criteria n_recommendations =
     (case players_df s of None \<Rightarrow> Inl NoPlayerData
      | Some df \<Rightarrow>
        (case (case map_of criteria ''position'' of
                 None \<Rightarrow> Inr (rows df)
               | Some pos \<Rightarrow>
                  if truthy pos then
                    (if ''position'' \<in> set (columns df)
                     then Inr (filter (\<lambda>r. py_eq (cell_of r ''position'') pos) (rows df))
                     else Inl KeyError)
                  else Inr (rows df)) of
           Inl e \<Rightarrow> Inl (CriteriaError e)
         | Inr rs0 \<Rightarrow>
            (case apply_criteria df criteria rs0 of
               Inl e \<Rightarrow> Inl (CriteriaError e)
             | Inr rs1 \<Rightarrow>
                (case (if ''rating'' \<in> set (columns df) then sort_by_rating rs1 else Inr rs1) of
                   Inl e \<Rightarrow> Inl (CriteriaError e)
                 | Inr rs2 \<Rightarrow> Inr (df\<lparr>rows := head n_recommendations rs2\<rparr>)))))"

section \<open>Auxiliary definitions for the statements\<close>

text \<open>The derived cells of one row, as the column expressions compute them.\<close>

definition mpa_row :: "row \<Rightarrow> cell" where
  "mpa_row r =
     Num (fl_div (the_fl (cell_of r ''minutes_played'')) (the_fl (cell_of r ''appearances'')))"

definition rate_row :: "string \<Rightarrow> string \<Rightarrow> row \<Rightarrow> cell" where
  "rate_row den num r = Num (rate (the_fl (cell_of r num)) (the_fl (cell_of r den)))"

definition enrich_row :: "row \<Rightarrow> row" where
  "enrich_row r =
    (let r1 = AList.update ''minutes_per_appearance'' (mpa_row r) r;
         r2 = AList.update ''pass_completion_rate'' (cell_of r1 ''passes_accuracy'') r1;
         r3 = AList.update ''shot_conversion_rate'' (rate_row ''shots_total'' ''goals_total'' r2) r2
     in AList.update ''duels_success_rate'' (rate_row ''duels_total'' ''duels_won'' r3) r3)"

text \<open>The clean-up of a cell of a numeric column: infinities to NaN, then NaN to 0.\<close>

definition clean_cell :: "cell \<Rightarrow> cell" where
  "clean_cell v = fill_cell True (replace_inf_cell v)"

text \<open>An input column of a row \<open>r\<close> is numeric and arrives cleaned in the row \<open>r'\<close>.\<close>

definition kept :: "row \<Rightarrow> row \<Rightarrow> string \<Rightarrow> bool" where
  "kept r r' c = (is_num (cell_of r c) \<and> cell_of r' c = clean_cell (cell_of r c))"

text \<open>
  A response is well formed when nothing in it raises: every element is a dictionary
  whose statistics can be iterated, and for every statistics block the block, the player
  block and the eight sub-blocks that are read are dictionaries. (The player block is
  read only inside the inner loop, so it is not looked at when there is no block.)
\<close>

fun is_dict :: "jsub \<Rightarrow> bool" where
  "is_dict (Dict _) = True"
| "is_dict NotDict = False"

definition block_ok :: "jsub \<Rightarrow> jblock \<Rightarrow> bool" where
  "block_ok info b =
     (case b of NotBlock \<Rightarrow> False
      | Block stat \<Rightarrow> list_all (\<lambda>f. is_dict (fst (snd f))) (row_items info stat))"

definition entry_ok :: "jentry \<Rightarrow> bool" where
  "entry_ok p =
     (case p of NotEntry \<Rightarrow> False
      | Entry e \<Rightarrow> (case stats e of NotIterable \<Rightarrow> False
                    | StatList bs \<Rightarrow> list_all (block_ok (player_info e)) bs))"

definition well_formed :: "jentry list \<Rightarrow> bool" where
  "well_formed players = list_all entry_ok players"

text \<open>
  The (player, statistics block) pairs of a list of raw entries, in input order, and the
  flat record of one pair.
\<close>

definition pairs_of :: "jentry \<Rightarrow> (jsub \<times> jblock) list" where
  "pairs_of p =
     (case p of NotEntry \<Rightarrow> []
      | Entry e \<Rightarrow> (case stats e of NotIterable \<Rightarrow> []
                    | StatList bs \<Rightarrow> map (\<lambda>b. (player_info e, b)) bs))"

definition stint_pairs :: "jentry list \<Rightarrow> (jsub \<times> jblock) list" where
  "stint_pairs players = concat (map pairs_of players)"

definition dict_of :: "jsub \<Rightarrow> jdict" where
  "dict_of obj = (case obj of NotDict \<Rightarrow> [] | Dict d \<Rightarrow> d)"

definition record_of :: "jsub \<times> jblock \<Rightarrow> row" where
  "record_of ps =
     (case snd ps of NotBlock \<Rightarrow> []
      | Block stat \<Rightarrow> map (\<lambda>(col, obj, key). (col, dget (dict_of obj) key)) (row_items (fst ps) stat))"

text \<open>The table the Normalizer builds from a list of entries that raises nothing.\<close>

definition normalized :: "jentry list \<Rightarrow> dataframe" where
  "normalized players =
     handle_missing_values
       (DataFrame (case processed_data players of Inl e \<Rightarrow> [] | Inr rs \<Rightarrow> rs))"

subsection \<open>Example inputs\<close>

definition dp0 :: data_processor where
  "dp0 = \<lparr>dp_players_df = None, dp_teams_df = None\<rparr>"

text \<open>
  A squad of two players for whom the data source reports no shots and no duels: a
  regular with 10 appearances and a reserve who never played.
\<close>

definition squad_without_shots :: "jentry list" where
  "squad_without_shots =
     [Entry \<lparr>player = Some (Dict [(''id'', Num (Fin 10)), (''name'', Str ''Regular''), (''age'', Num (Fin 27))]),
       statistics = Some (StatList [Block [(''team'', Dict [(''id'', Num (Fin 1))]),
                           (''games'', Dict [(''appearances'', Num (Fin 10)), (''minutes'', Num (Fin 900))]),
                           (''shots'', Dict [(''total'', Null), (''on'', Null)])]])\<rparr>,
      Entry \<lparr>player = Some (Dict [(''id'', Num (Fin 11)), (''name'', Str ''Reserve''), (''age'', Num (Fin 19))]),
       statistics = Some (StatList [Block [(''team'', Dict [(''id'', Num (Fin 1))]),
                           (''games'', Dict [(''appearances'', Num (Fin 0)), (''minutes'', Num (Fin 0))]),
                           (''shots'', Dict [(''total'', Null), (''on'', Null)])]])\<rparr>]"

text \<open>A player credited with two goals from one recorded shot.\<close>

definition striker :: "jentry list" where
  "striker =
     [Entry \<lparr>player = Some (Dict [(''id'', Num (Fin 9)), (''name'', Str ''Striker''), (''age'', Num (Fin 24))]),
       statistics = Some (StatList [Block [(''games'', Dict [(''appearances'', Num (Fin 1)), (''minutes'', Num (Fin 90))]),
                           (''shots'', Dict [(''total'', Num (Fin 1)), (''on'', Num (Fin 1))]),
                           (''goals'', Dict [(''total'', Num (Fin 2)), (''assists'', Num (Fin 0))]),
                           (''passes'', Dict [(''total'', Num (Fin 20)), (''accuracy'', Num (Fin 80))]),
                           (''duels'', Dict [(''total'', Num (Fin 10)), (''won'', Num (Fin 5))])]])\<rparr>]"

text \<open>Two players with complete statistics; the first has two stints.\<close>

definition two_players :: "jentry list" where
  "two_players =
     [Entry \<lparr>player = Some (Dict [(''id'', Num (Fin 1)), (''name'', Str ''Mover''), (''age'', Num (Fin 25))]),
       statistics = Some (StatList [Block [(''team'', Dict [(''id'', Num (Fin 1))]),
           (''games'', Dict [(''appearances'', Num (Fin 10)), (''minutes'', Num (Fin 900))]),
           (''shots'', Dict [(''total'', Num (Fin 20)), (''on'', Num (Fin 10))]),
           (''goals'', Dict [(''total'', Num (Fin 5)), (''assists'', Num (Fin 2))]),
           (''passes'', Dict [(''total'', Num (Fin 300)), (''accuracy'', Num (Fin 80))]),
           (''duels'', Dict [(''total'', Num (Fin 50)), (''won'', Num (Fin 30))])],
          Block [(''team'', Dict [(''id'', Num (Fin 2))]),
           (''games'', Dict [(''appearances'', Num (Fin 0)), (''minutes'', Num (Fin 0))]),
           (''shots'', Dict [(''total'', Num (Fin 0)), (''on'', Num (Fin 0))]),
           (''goals'', Dict [(''total'', Num (Fin 0)), (''assists'', Num (Fin 0))]),
           (''passes'', Dict [(''total'', Num (Fin 0)), (''accuracy'', Num (Fin 0))]),
           (''duels'', Dict [(''total'', Num (Fin 0)), (''won'', Num (Fin 0))])]])\<rparr>,
      Entry \<lparr>player = Some (Dict [(''id'', Num (Fin 2)), (''name'', Str ''Stayer''), (''age'', Num (Fin 30))]),
       statistics = Some (StatList [Block [(''team'', Dict [(''id'', Num (Fin 1))]),
           (''games'', Dict [(''appearances'', Num (Fin 4)), (''minutes'', Num (Fin 180))]),
           (''shots'', Dict [(''total'', Num (Fin 4)), (''on'', Num (Fin 1))]),
           (''goals'', Dict [(''total'', Num (Fin 1)), (''assists'', Num (Fin 0))]),
           (''passes'', Dict [(''total'', Num (Fin 100)), (''accuracy'', Num (Fin 70))]),
           (''duels'', Dict [(''total'', Num (Fin 20)), (''won'', Num (Fin 5))])]])\<rparr>]"

text \<open>
  A player whose \<open>shots\<close> block is null in the response (the key is present, the value
  is not a dictionary).
\<close>

definition null_shots :: "jentry list" where
  "null_shots =
     [Entry \<lparr>player = Some (Dict [(''id'', Num (Fin 5)), (''name'', Str ''Keeper'')]),
       statistics = Some (StatList [Block
          [(''games'', Dict [(''appearances'', Num (Fin 3)), (''minutes'', Num (Fin 270))]),
           (''shots'', NotDict)]])\<rparr>]"

text \<open>Three defenders and a midfielder, and a criteria query over them.\<close>

definition defender_row :: "real \<Rightarrow> string \<Rightarrow> real \<Rightarrow> real \<Rightarrow> row" where
  "defender_row pid pos tackles rating =
     [(''player_id'', Num (Fin pid)), (''position'', Str pos),
      (''tackles_total'', Num (Fin tackles)), (''rating'', Num (Fin rating))]"

definition defenders :: dataframe where
  "defenders =
     \<lparr>columns = [''player_id'', ''position'', ''tackles_total'', ''rating''],
      rows = [defender_row 1 ''Defender'' 40 (15 / 2), defender_row 2 ''Defender'' 55 (13 / 2),
              defender_row 3 ''Defender'' 70 7, defender_row 4 ''Midfielder'' 80 8]\<rparr>"

definition defender_criteria :: "(string \<times> cell) list" where
  "defender_criteria =
     [(''position'', Str ''Defender''), (''min_tackles_total'', Num (Fin 50)),
      (''max_rating'', Num (Fin 9)), (''min_speed'', Num (Fin 3))]"

subsection \<open>Example inputs of the recommender\<close>

text \<open>
  The transform of one raw feature row under a stored pipeline state, in the spec's words:
  impute with the stored means (a feature without a mean is dropped), subtract the stored
  mean and divide by the stored standard deviation.
\<close>

definition transform_row :: "pipeline_state \<Rightarrow> fl list \<Rightarrow> real list" where
  "transform_row ps xs =
     map (\<lambda>(x, m, sd). (x - m) / sd)
       (zip (concat (map (\<lambda>(st, x). case st of None \<Rightarrow> [] | Some mu \<Rightarrow> [impute_value mu x])
                         (zip (imp_statistics ps) xs)))
            (zip (sc_mean (fitted_scaler ps)) (sc_scale (fitted_scaler ps))))"

text \<open>
  A library instance for the examples: no string converts to a float, and the clustering
  puts every row in cluster 0.
\<close>

definition lib0 :: library where
  "lib0 = \<lparr>parse_float = (\<lambda>s. None), kmeans_fit_predict = (\<lambda>k X. Some (map (\<lambda>x. 0) X))\<rparr>"

text \<open>
  Four stint rows of three players: player 1 moved during the season and has two rows.
  Only the minutes differ between the rows.
\<close>

definition stint_row :: "real \<Rightarrow> string \<Rightarrow> real \<Rightarrow> row" where
  "stint_row pid nm mins =
     [(''player_id'', Num (Fin pid)), (''name'', Str nm), (''age'', Num (Fin 25)),
      (''minutes_played'', Num (Fin mins)), (''shots_total'', Num (Fin 10)),
      (''goals_total'', Num (Fin 2)), (''assists'', Num (Fin 1))]"

definition stints_table :: dataframe where
  "stints_table =
     \<lparr>columns = [''player_id'', ''name'', ''age'', ''minutes_played'', ''shots_total'',
                 ''goals_total'', ''assists''],
      rows = [stint_row 1 ''Mover'' 100, stint_row 2 ''Second'' 700,
              stint_row 1 ''Mover'' 900, stint_row 3 ''Third'' 1500]\<rparr>"

text \<open>What fitting on that table computes.\<close>

definition stints_features :: "string list" where
  "stints_features = [''age'', ''minutes_played'', ''shots_total'', ''goals_total'', ''assists'']"

definition stints_cols :: "fl list list" where
  "stints_cols = [[Fin 25, Fin 25, Fin 25, Fin 25], [Fin 100, Fin 700, Fin 900, Fin 1500],
                  [Fin 10, Fin 10, Fin 10, Fin 10], [Fin 2, Fin 2, Fin 2, Fin 2],
                  [Fin 1, Fin 1, Fin 1, Fin 1]]"

definition stints_ps :: pipeline_state where
  "stints_ps = \<lparr>imp_statistics = [Some 25, Some 800, Some 10, Some 2, Some 1],
                fitted_scaler = \<lparr>sc_mean = [25, 800, 10, 2, 1], sc_scale = [1, 500, 1, 1, 1]\<rparr>\<rparr>"

definition stints_X :: "real list list" where
  "stints_X = [[0, - (7/5), 0, 0, 0], [0, - (1/5), 0, 0, 0], [0, 1/5, 0, 0, 0], [0, 7/5, 0, 0, 0]]"

definition stints_index :: nearest_neighbors where
  "stints_index = \<lparr>n_neighbors = 4, fit_X = stints_X\<rparr>"

definition stints_trained_table :: dataframe where
  "stints_trained_table =
     set_col stints_table ''cluster'' [Num (Fin 0), Num (Fin 0), Num (Fin 0), Num (Fin 0)]"

text \<open>The recommender after \<open>set_data\<close>, and after training on the table.\<close>

definition stints_loaded :: recommender where
  "stints_loaded = set_data init_recommender (Some stints_table)"

definition stints_trained :: recommender where
  "stints_trained =
     \<lparr>knn_model = Some stints_index,
      kmeans_model = Some \<lparr>n_clusters = 4, km_labels = Some [0, 0, 0, 0]\<rparr>,
      feature_columns = Some candidate_features,
      scaler = Some (fitted_scaler stints_ps),
      players_df = Some stints_trained_table\<rparr>"

text \<open>The answer to the query for two players similar to player 1.\<close>

definition stints_answer :: similarity_result where
  "stints_answer =
     \<lparr>similar_players =
        set_col (stints_trained_table\<lparr>rows := [rows stints_trained_table ! 1,
                                               rows stints_trained_table ! 2]\<rparr>)
          ''similarity_score'' [Num (Fin (5 / 11)), Num (Fin (5 / 13))],
      similar_distances = [6 / 5, 8 / 5]\<rparr>"

text \<open>A second table with other minutes, loaded after the models were trained.\<close>

definition stints_table2 :: dataframe where
  "stints_table2 =
     \<lparr>columns = [''player_id'', ''name'', ''age'', ''minutes_played'', ''shots_total'',
                 ''goals_total'', ''assists''],
      rows = [stint_row 1 ''Mover'' 200, stint_row 2 ''Second'' 1400,
              stint_row 1 ''Mover'' 1800, stint_row 3 ''Third'' 3000]\<rparr>"

definition stints_cols2 :: "fl list list" where
  "stints_cols2 = [[Fin 25, Fin 25, Fin 25, Fin 25], [Fin 200, Fin 1400, Fin 1800, Fin 3000],
                   [Fin 10, Fin 10, Fin 10, Fin 10], [Fin 2, Fin 2, Fin 2, Fin 2],
                   [Fin 1, Fin 1, Fin 1, Fin 1]]"

definition stints_ps2 :: pipeline_state where
  "stints_ps2 = \<lparr>imp_statistics = [Some 25, Some 1600, Some 10, Some 2, Some 1],
                 fitted_scaler = \<lparr>sc_mean = [25, 1600, 10, 2, 1], sc_scale = [1, 1000, 1, 1, 1]\<rparr>\<rparr>"

definition stints_reloaded :: recommender where
  "stints_reloaded = set_data (snd (train_models lib0 stints_loaded)) (Some stints_table2)"

text \<open>A table with three of the fourteen candidate features.\<close>

definition three_features :: dataframe where
  "three_features =
     \<lparr>columns = [''player_id'', ''age'', ''rating'', ''goals_total''],
      rows = [[(''player_id'', Num (Fin 1)), (''age'', Num (Fin 25)), (''rating'', Num (Fin 7)),
               (''goals_total'', Num (Fin 3))],
              [(''player_id'', Num (Fin 2)), (''age'', Num (Fin 31)), (''rating'', Num (Fin 6)),
               (''goals_total'', Num (Fin 0))]]\<rparr>"

definition three_loaded :: recommender where
  "three_loaded = set_data init_recommender (Some three_features)"

section \<open>Lemmas on rows and columns\<close>

lemma cell_of_update:
  "cell_of (AList.update c v r) c' = (if c' = c then v else cell_of r c')"
  by (simp add: cell_of_def update_conv')

lemma map_of_map_entries:
  "map_of (map (\<lambda>(k, v). (k, f k v)) r) c = map_option (f c) (map_of r c)"
  by (induction r) auto

lemma cell_of_map_entries:
  "cell_of r c \<noteq> Null \<Longrightarrow> cell_of (map (\<lambda>(k, v). (k, f k v)) r) c = f c (cell_of r c)"
  by (simp add: cell_of_def map_of_map_entries split: option.splits)

lemma zip_map_same: "map (\<lambda>(x, y). g x y) (zip xs (map f xs)) = map (\<lambda>x. g x (f x)) xs"
  by (induction xs) auto

lemma zip_map_map: "map (\<lambda>(x, y). g x y) (zip (map f xs) (map h xs)) = map (\<lambda>x. g (f x) (h x)) xs"
  by (induction xs) auto

lemma numeric_col_iff: "numeric_col df c \<longleftrightarrow> (\<forall>r \<in> set (rows df). is_num (cell_of r c))"
  by (simp add: numeric_col_def series_def list_all_iff)

lemma add_mpa_Inr:
  assumes "add_minutes_per_appearance df = Inr df1"
  shows "rows df1 = map (\<lambda>r. AList.update ''minutes_per_appearance'' (mpa_row r) r) (rows df)"
    and "numeric_col df ''minutes_played''" and "numeric_col df ''appearances''"
  using assms
  by (auto simp: add_minutes_per_appearance_def get_col_def numeric_series_def series_def
      numeric_col_def set_col_def zip_map_map zip_map_same mpa_row_def o_def
      split: if_splits sum.splits)

lemma add_pcr_Inr:
  assumes "add_pass_completion_rate df = Inr df1"
  shows "rows df1 = map (\<lambda>r. AList.update ''pass_completion_rate'' (cell_of r ''passes_accuracy'') r) (rows df)"
  using assms
  by (auto simp: add_pass_completion_rate_def get_col_def series_def set_col_def zip_map_same
      split: if_splits sum.splits)

lemma add_rate_Inr:
  assumes "add_rate out den num df = Inr df1"
  shows "rows df1 = map (\<lambda>r. AList.update out (rate_row den num r) r) (rows df)"
    and "numeric_col df den" and "numeric_col df num"
  using assms
  by (auto simp: add_rate_def num_col_def get_col_def numeric_series_def series_def
      numeric_col_def set_col_def zip_map_map zip_map_same rate_row_def o_def
      split: if_splits sum.splits)

lemma metrics_success:
  assumes "calculate_player_metrics df = (None, df')"
  obtains df4 where
    "rows df4 = map enrich_row (rows df)"
    "df' = handle_missing_values (replace_inf df4)"
    "numeric_col df ''minutes_played''" "numeric_col df ''appearances''"
    "numeric_col df ''shots_total''" "numeric_col df ''goals_total''"
    "numeric_col df ''duels_total''" "numeric_col df ''duels_won''"
proof -
  from assms obtain df1 df2 df3 df4 where
    1: "add_minutes_per_appearance df = Inr df1" and
    2: "add_pass_completion_rate df1 = Inr df2" and
    3: "add_rate ''shot_conversion_rate'' ''shots_total'' ''goals_total'' df2 = Inr df3" and
    4: "add_rate ''duels_success_rate'' ''duels_total'' ''duels_won'' df3 = Inr df4" and
    5: "df' = handle_missing_values (replace_inf df4)"
    by (auto simp: calculate_player_metrics_def split: sum.splits)
  have r4: "rows df4 = map enrich_row (rows df)"
    by (simp add: add_rate_Inr(1)[OF 4] add_rate_Inr(1)[OF 3] add_pcr_Inr[OF 2] add_mpa_Inr(1)[OF 1]
        enrich_row_def Let_def o_def)
  have n3: "numeric_col df3 ''duels_total''" "numeric_col df3 ''duels_won''"
    using add_rate_Inr(2,3)[OF 4] by auto
  have n2: "numeric_col df2 ''shots_total''" "numeric_col df2 ''goals_total''"
    using add_rate_Inr(2,3)[OF 3] by auto
  have a: "numeric_col df ''shots_total''" "numeric_col df ''goals_total''"
    using n2 by (auto simp: numeric_col_iff add_pcr_Inr[OF 2] add_mpa_Inr(1)[OF 1] cell_of_update)
  have b: "numeric_col df ''duels_total''" "numeric_col df ''duels_won''"
    using n3 by (auto simp: numeric_col_iff add_rate_Inr(1)[OF 3] add_pcr_Inr[OF 2] add_mpa_Inr(1)[OF 1] cell_of_update)
  show thesis
    using that[OF r4 5 add_mpa_Inr(2,3)[OF 1] a b] .
qed


lemma cell_of_enrich_other:
  "c \<notin> {''minutes_per_appearance'', ''pass_completion_rate'', ''shot_conversion_rate'', ''duels_success_rate''}
   \<Longrightarrow> cell_of (enrich_row r) c = cell_of r c"
  by (simp add: enrich_row_def Let_def cell_of_update)

lemma cell_of_enrich_mpa:
  "cell_of (enrich_row r) ''minutes_per_appearance'' = mpa_row r"
  by (simp add: enrich_row_def Let_def cell_of_update)

lemma cell_of_enrich_shot:
  "cell_of (enrich_row r) ''shot_conversion_rate'' = rate_row ''shots_total'' ''goals_total'' r"
  by (simp add: enrich_row_def Let_def cell_of_update rate_row_def)

lemma cell_of_enrich_duels:
  "cell_of (enrich_row r) ''duels_success_rate'' = rate_row ''duels_total'' ''duels_won'' r"
  by (simp add: enrich_row_def Let_def cell_of_update rate_row_def)

lemma rows_replace_inf: "rows (replace_inf d) = map (\<lambda>r. map (\<lambda>(k, v). (k, replace_inf_cell v)) r) (rows d)"
  by (simp add: replace_inf_def)

lemma is_num_replace_inf: "is_num (replace_inf_cell v) = is_num v"
  by (cases v rule: replace_inf_cell.cases) auto

lemma cell_of_replace_inf_row:
  "cell_of (map (\<lambda>(k, v). (k, replace_inf_cell v)) r) c = replace_inf_cell (cell_of r c)"
  by (simp add: cell_of_def map_of_map_entries split: option.splits)

lemma numeric_col_replace_inf: "numeric_col (replace_inf d) c = numeric_col d c"
  by (simp add: numeric_col_iff rows_replace_inf cell_of_replace_inf_row is_num_replace_inf)

lemma cell_of_cleaned:
  assumes "numeric_col d c" "r \<in> set (rows d)"
  shows "cell_of (map (\<lambda>(k, v). (k, fill_cell (numeric_col (replace_inf d) k) v))
                   (map (\<lambda>(k, v). (k, replace_inf_cell v)) r)) c = clean_cell (cell_of r c)"
proof -
  from assms have n: "is_num (cell_of r c)" by (simp add: numeric_col_iff)
  then have "cell_of (map (\<lambda>(k, v). (k, replace_inf_cell v)) r) c \<noteq> Null"
    using is_num_replace_inf[of "cell_of r c"] by (auto simp: cell_of_replace_inf_row)
  then show ?thesis
    using assms(1)
    by (simp add: cell_of_map_entries numeric_col_replace_inf cell_of_replace_inf_row clean_cell_def
        del: map_map)
qed

lemma metrics_rows:
  assumes "calculate_player_metrics df = (None, df')" and "r' \<in> set (rows df')"
  shows "\<exists>r \<in> set (rows df).
      kept r r' ''minutes_played'' \<and> kept r r' ''appearances''
    \<and> kept r r' ''shots_total'' \<and> kept r r' ''goals_total''
    \<and> kept r r' ''duels_total'' \<and> kept r r' ''duels_won''
    \<and> cell_of r' ''minutes_per_appearance'' = clean_cell (mpa_row r)
    \<and> cell_of r' ''shot_conversion_rate'' = clean_cell (rate_row ''shots_total'' ''goals_total'' r)
    \<and> cell_of r' ''duels_success_rate'' = clean_cell (rate_row ''duels_total'' ''duels_won'' r)"
proof -
  from assms(1) obtain df4 where
    r4: "rows df4 = map enrich_row (rows df)" and
    d': "df' = handle_missing_values (replace_inf df4)" and
    nc: "numeric_col df ''minutes_played''" "numeric_col df ''appearances''"
    "numeric_col df ''shots_total''" "numeric_col df ''goals_total''"
    "numeric_col df ''duels_total''" "numeric_col df ''duels_won''"
    by (rule metrics_success)
  from assms(2) obtain r where r: "r \<in> set (rows df)" and
    r': "r' = map (\<lambda>(k, v). (k, fill_cell (numeric_col (replace_inf df4) k) v))
                   (map (\<lambda>(k, v). (k, replace_inf_cell v)) (enrich_row r))"
    by (auto simp: d' handle_missing_values_def rows_replace_inf r4)
  have er: "enrich_row r \<in> set (rows df4)" using r by (simp add: r4)
  have keep: "numeric_col df4 c" if "numeric_col df c"
    "c \<notin> {''minutes_per_appearance'', ''pass_completion_rate'', ''shot_conversion_rate'', ''duels_success_rate''}" for c
    using that by (simp add: numeric_col_iff r4 cell_of_enrich_other)
  have A: "is_num (cell_of r c) \<and> cell_of r' c = clean_cell (cell_of r c)"
    if "c \<in> {''minutes_played'', ''appearances'', ''shots_total'', ''goals_total'',
                    ''duels_total'', ''duels_won''}" for c
  proof -
    have ncc: "numeric_col df c" using that nc by auto
    have nin: "c \<notin> {''minutes_per_appearance'', ''pass_completion_rate'', ''shot_conversion_rate'', ''duels_success_rate''}"
      using that by auto
    have "cell_of r' c = clean_cell (cell_of (enrich_row r) c)"
      unfolding r' by (rule cell_of_cleaned[OF keep[OF ncc nin] er])
    then show ?thesis using ncc r nin by (simp add: cell_of_enrich_other numeric_col_iff)
  qed
  have n1: "numeric_col df4 ''minutes_per_appearance''"
    by (simp add: numeric_col_iff r4 cell_of_enrich_mpa mpa_row_def)
  have n2: "numeric_col df4 ''shot_conversion_rate''"
    by (simp add: numeric_col_iff r4 cell_of_enrich_shot rate_row_def)
  have n3: "numeric_col df4 ''duels_success_rate''"
    by (simp add: numeric_col_iff r4 cell_of_enrich_duels rate_row_def)
  have B: "cell_of r' ''minutes_per_appearance'' = clean_cell (mpa_row r)"
    unfolding r' cell_of_cleaned[OF n1 er] by (simp only: cell_of_enrich_mpa)
  have C: "cell_of r' ''shot_conversion_rate'' = clean_cell (rate_row ''shots_total'' ''goals_total'' r)"
    unfolding r' cell_of_cleaned[OF n2 er] by (simp only: cell_of_enrich_shot)
  have D: "cell_of r' ''duels_success_rate'' = clean_cell (rate_row ''duels_total'' ''duels_won'' r)"
    unfolding r' cell_of_cleaned[OF n3 er] by (simp only: cell_of_enrich_duels)
  have K: "kept r r' ''minutes_played''" "kept r r' ''appearances''"
    "kept r r' ''shots_total''" "kept r r' ''goals_total''"
    "kept r r' ''duels_total''" "kept r r' ''duels_won''"
    unfolding kept_def by (rule A, simp)+
  show ?thesis using r K B C D by blast
qed

lemma mpa_cases:
  "\<exists>m a x. clean_cell (Num mf) = Num (Fin m) \<and> clean_cell (Num af) = Num (Fin a) \<and>
     clean_cell (Num (fl_div mf af)) = Num (Fin x) \<and> (a > 0 \<longrightarrow> x = m / a) \<and> (a = 0 \<longrightarrow> x = 0)"
  by (cases mf; cases af) (auto simp: clean_cell_def fill_cell_def)

lemma pct_bounds: "0 \<le> n \<Longrightarrow> n \<le> d \<Longrightarrow> 0 < d \<Longrightarrow> 0 \<le> n / d * 100 \<and> n / d * 100 \<le> (100::real)"
  by (simp add: field_simps)

lemma rate_cases:
  "\<exists>n d x. clean_cell (Num nf) = Num (Fin n) \<and> clean_cell (Num df) = Num (Fin d) \<and>
     clean_cell (Num (rate nf df)) = Num (Fin x) \<and> (d \<le> 0 \<longrightarrow> x = 0) \<and> (d > 0 \<longrightarrow> x = n / d * 100)
     \<and> (0 \<le> n \<and> n \<le> d \<longrightarrow> 0 \<le> x \<and> x \<le> 100)"
  using pct_bounds
  by (cases nf; cases df) (auto simp: clean_cell_def fill_cell_def rate_def fl_gt_def)


lemma sequence_Inr:
  "(\<forall>x \<in> set xs. f x = Inr (g x)) \<Longrightarrow> sequence (map f xs) = Inr (map g xs)"
  by (induction xs) auto

lemma sequence_Inl:
  "\<exists>x \<in> set xs. \<exists>e. f x = Inl e \<Longrightarrow> \<exists>e. sequence (map f xs) = Inl e"
proof (induction xs)
  case Nil
  then show ?case by simp
next
  case (Cons a xs)
  show ?case
  proof (cases "f a")
    case (Inl e)
    then show ?thesis by simp
  next
    case (Inr v)
    with Cons.prems have "\<exists>x \<in> set xs. \<exists>e. f x = Inl e" by auto
    from Cons.IH[OF this] obtain e where "sequence (map f xs) = Inl e" by blast
    with Inr show ?thesis by simp
  qed
qed

lemma row_item_ok: "is_dict (fst (snd f)) \<Longrightarrow>
   row_item f = Inr ((\<lambda>(col, obj, key). (col, dget (dict_of obj) key)) f)"
  by (cases f; cases "fst (snd f)") (auto simp: row_item_def dict_of_def)

lemma row_item_bad: "\<not> is_dict (fst (snd f)) \<Longrightarrow> \<exists>e. row_item f = Inl e"
  by (cases f; cases "fst (snd f)") (auto simp: row_item_def)

lemma block_row_ok:
  assumes "block_ok info b"
  shows "block_row info b = Inr (record_of (info, b))"
proof (cases b)
  case NotBlock
  with assms show ?thesis by (simp add: block_ok_def)
next
  case (Block stat)
  with assms have "\<forall>f \<in> set (row_items info stat). row_item f
      = Inr ((\<lambda>(col, obj, key). (col, dget (dict_of obj) key)) f)"
    using row_item_ok by (simp add: block_ok_def list_all_iff)
  from sequence_Inr[OF this] show ?thesis
    by (simp add: block_row_def Block flatten_def record_of_def)
qed

lemma block_row_bad:
  assumes "\<not> block_ok info b"
  shows "\<exists>e. block_row info b = Inl e"
proof (cases b)
  case NotBlock
  then show ?thesis by (simp add: block_row_def)
next
  case (Block stat)
  with assms obtain f where "f \<in> set (row_items info stat)" "\<not> is_dict (fst (snd f))"
    by (auto simp: block_ok_def list_all_iff)
  then have "\<exists>x \<in> set (row_items info stat). \<exists>e. row_item x = Inl e"
    using row_item_bad by blast
  from sequence_Inl[OF this] show ?thesis by (simp add: block_row_def Block flatten_def)
qed

lemma entry_rows_ok:
  assumes "entry_ok p"
  shows "entry_rows p = Inr (map record_of (pairs_of p))"
proof (cases p)
  case NotEntry
  with assms show ?thesis by (simp add: entry_ok_def)
next
  case (Entry r)
  show ?thesis
  proof (cases "stats r")
    case NotIterable
    with assms Entry show ?thesis by (simp add: entry_ok_def)
  next
    case (StatList bs)
    with assms Entry have "\<forall>b \<in> set bs. block_row (player_info r) b = Inr (record_of (player_info r, b))"
      using block_row_ok by (simp add: entry_ok_def list_all_iff)
    from sequence_Inr[OF this] show ?thesis
      by (simp add: entry_rows_def Entry StatList pairs_of_def o_def)
  qed
qed

lemma entry_rows_bad:
  assumes "\<not> entry_ok p"
  shows "\<exists>e. entry_rows p = Inl e"
proof (cases p)
  case NotEntry
  then show ?thesis by (simp add: entry_rows_def)
next
  case (Entry r)
  show ?thesis
  proof (cases "stats r")
    case NotIterable
    then show ?thesis by (simp add: entry_rows_def Entry)
  next
    case (StatList bs)
    with assms Entry obtain b where "b \<in> set bs" "\<not> block_ok (player_info r) b"
      by (auto simp: entry_ok_def list_all_iff)
    then have "\<exists>x \<in> set bs. \<exists>e. block_row (player_info r) x = Inl e"
      using block_row_bad by blast
    from sequence_Inl[OF this] show ?thesis by (simp add: entry_rows_def Entry StatList)
  qed
qed

lemma processed_data_pairs:
  assumes "well_formed players"
  shows "processed_data players = Inr (map record_of (stint_pairs players))"
proof -
  from assms have "\<forall>p \<in> set players. entry_rows p = Inr (map record_of (pairs_of p))"
    using entry_rows_ok by (simp add: well_formed_def list_all_iff)
  from sequence_Inr[OF this] show ?thesis
    by (simp add: processed_data_def stint_pairs_def map_concat o_def)
qed

lemma processed_data_bad:
  assumes "\<not> well_formed players"
  shows "\<exists>e. processed_data players = Inl e"
proof -
  from assms obtain p where "p \<in> set players" "\<not> entry_ok p"
    by (auto simp: well_formed_def list_all_iff)
  then have "\<exists>x \<in> set players. \<exists>e. entry_rows x = Inl e"
    using entry_rows_bad by blast
  from sequence_Inl[OF this] show ?thesis by (auto simp: processed_data_def)
qed

lemma map_of_keys: "map_of (map (\<lambda>c. (c, f c)) cs) c = (if c \<in> set cs then Some (f c) else None)"
  by (induction cs) auto

lemma cell_of_Null_notin: "c \<notin> fst ` set r \<Longrightarrow> cell_of r c = Null"
  by (simp add: cell_of_def map_of_eq_None_iff[THEN iffD2])

lemma infer_col_keep: "v \<noteq> Null \<Longrightarrow> infer_col rs c v = v"
  by (simp add: infer_col_def Let_def)

lemma DataFrame_cell:
  assumes "r \<in> set rs" and "cell_of r c \<noteq> Null"
  shows "cell_of (map (\<lambda>c. (c, infer_col rs c (cell_of r c))) (remdups (concat (map (map fst) rs)))) c
           = cell_of r c"
proof -
  have "c \<in> fst ` set r" using assms(2) cell_of_Null_notin by blast
  then have "c \<in> set (remdups (concat (map (map fst) rs)))" using assms(1) by auto
  then show ?thesis
    using assms(2) by (simp add: cell_of_def[of "map _ _"] map_of_keys infer_col_keep)
qed

lemma fill_cell_keep: "\<not> isna v \<Longrightarrow> fill_cell b v = v"
  by (simp add: fill_cell_def)

lemma isna_Null: "\<not> isna v \<Longrightarrow> v \<noteq> Null"
  by auto

lemma normalized_rows:
  "rows (handle_missing_values (DataFrame rs)) =
     map (\<lambda>r. map (\<lambda>(k, v). (k, fill_cell (numeric_col (DataFrame rs) k) v))
               (map (\<lambda>c. (c, infer_col rs c (cell_of r c))) (remdups (concat (map (map fst) rs))))) rs"
  by (simp add: handle_missing_values_def DataFrame_def Let_def o_def)

lemma normalized_cell:
  assumes "i < length rs" and "\<not> isna (cell_of (rs ! i) c)"
  shows "cell_of (rows (handle_missing_values (DataFrame rs)) ! i) c = cell_of (rs ! i) c"
proof -
  have r: "rs ! i \<in> set rs" using assms(1) by simp
  have nn: "cell_of (rs ! i) c \<noteq> Null" using assms(2) by auto
  have d: "cell_of (map (\<lambda>c. (c, infer_col rs c (cell_of (rs ! i) c))) (remdups (concat (map (map fst) rs)))) c
           = cell_of (rs ! i) c"
    by (rule DataFrame_cell[OF r nn])
  show ?thesis
    using assms nn d by (simp add: normalized_rows cell_of_map_entries fill_cell_keep del: map_map)
qed

section \<open>The Normalizer\<close>

text \<open>
  Claim C9, as amended. For a non-empty list of raw entries that is well formed (every
  entry, statistics block, player block and sub-block that is read is a dictionary, and
  the statistics can be iterated) the Normalizer signals a table with one row per
  (player, statistics block) pair, in input order and without merging the stints of a
  player: the table has as many rows as there are pairs, and row \<open>i\<close> carries every value
  that pair \<open>i\<close> supplies. For a non-empty list that is not well formed it signals a
  processing error, and for an empty list (or a response without the key) the
  empty-input error; in both cases the processor's table stays as it was.
\<close>

theorem normalizer_one_row_per_stint:
  "process_players_data s None = (Inl EmptyInput, s) \<and>
   process_players_data s (Some (EntryList [])) = (Inl EmptyInput, s) \<and>
   (players \<noteq> [] \<and> \<not> well_formed players \<longrightarrow>
     (\<exists>e. process_players_data s (Some (EntryList players)) = (Inl (ProcessError e), s))) \<and>
   (players \<noteq> [] \<and> well_formed players \<longrightarrow>
     (\<exists>df. process_players_data s (Some (EntryList players))
              = (Inr df, s\<lparr>dp_players_df := Some df\<rparr>) \<and>
        length (rows df) = length (stint_pairs players) \<and>
        (\<forall>i < length (stint_pairs players). \<forall>c.
           \<not> isna (cell_of (record_of (stint_pairs players ! i)) c) \<longrightarrow>
           cell_of (rows df ! i) c = cell_of (record_of (stint_pairs players ! i)) c)))"
proof (intro conjI impI)
  assume "players \<noteq> [] \<and> well_formed players"
  then have ne: "players \<noteq> []" and wf: "well_formed players" by auto
  let ?rs = "map record_of (stint_pairs players)"
  let ?df = "handle_missing_values (DataFrame ?rs)"
  have 1: "process_players_data s (Some (EntryList players)) = (Inr ?df, s\<lparr>dp_players_df := Some ?df\<rparr>)"
    using ne by (simp add: process_players_data_def processed_data_pairs[OF wf] Let_def)
  have 2: "length (rows ?df) = length (stint_pairs players)"
    by (simp add: normalized_rows del: map_map)
  have 3: "cell_of (rows ?df ! i) c = cell_of (record_of (stint_pairs players ! i)) c"
    if "i < length (stint_pairs players)" "\<not> isna (cell_of (record_of (stint_pairs players ! i)) c)" for i c
    using that normalized_cell[of i ?rs c] by simp
  show "\<exists>df. process_players_data s (Some (EntryList players))
              = (Inr df, s\<lparr>dp_players_df := Some df\<rparr>) \<and>
        length (rows df) = length (stint_pairs players) \<and>
        (\<forall>i < length (stint_pairs players). \<forall>c.
           \<not> isna (cell_of (record_of (stint_pairs players ! i)) c) \<longrightarrow>
           cell_of (rows df ! i) c = cell_of (record_of (stint_pairs players ! i)) c)"
    using 1 2 3 by blast
next
  assume "players \<noteq> [] \<and> \<not> well_formed players"
  then have ne: "players \<noteq> []" and "\<not> well_formed players" by auto
  from processed_data_bad[OF this(2)] obtain e where "processed_data players = Inl e" by blast
  with ne show "\<exists>e. process_players_data s (Some (EntryList players)) = (Inl (ProcessError e), s)"
    by (simp add: process_players_data_def)
qed (simp_all add: process_players_data_def)

lemma two_players_pairs: "length (stint_pairs two_players) = 3 \<and> well_formed two_players"
  by code_simp

lemma two_players_ids:
  "map (\<lambda>ps. cell_of (record_of ps) ''player_id'') (stint_pairs two_players)
     = [Num (Fin 1), Num (Fin 1), Num (Fin 2)]"
  by code_simp

theorem normalizer_one_row_per_stint_witness:
  "two_players \<noteq> [] \<and> well_formed two_players \<and>
   (\<exists>df. process_players_data dp0 (Some (EntryList two_players))
            = (Inr df, dp0\<lparr>dp_players_df := Some df\<rparr>) \<and>
        length (rows df) = 3 \<and>
        cell_of (rows df ! 0) ''player_id'' = Num (Fin 1) \<and>
        cell_of (rows df ! 1) ''player_id'' = Num (Fin 1) \<and>
        cell_of (rows df ! 2) ''player_id'' = Num (Fin 2)) \<and>
   null_shots \<noteq> [] \<and> \<not> well_formed null_shots \<and>
   (\<exists>e. process_players_data dp0 (Some (EntryList null_shots)) = (Inl (ProcessError e), dp0))"
proof -
  have bad: "null_shots \<noteq> [] \<and> \<not> well_formed null_shots" by code_simp
  from normalizer_one_row_per_stint[of dp0 null_shots] bad
  have err: "\<exists>e. process_players_data dp0 (Some (EntryList null_shots)) = (Inl (ProcessError e), dp0)"
    by blast
  have ne: "two_players \<noteq> []" by (simp add: two_players_def)
  have wf: "well_formed two_players" using two_players_pairs by simp
  have len: "length (stint_pairs two_players) = 3" using two_players_pairs by simp
  from normalizer_one_row_per_stint[of dp0 two_players] ne wf obtain df where
    1: "process_players_data dp0 (Some (EntryList two_players))
          = (Inr df, dp0\<lparr>dp_players_df := Some df\<rparr>)" and
    2: "length (rows df) = length (stint_pairs two_players)" and
    3: "\<And>i c. i < length (stint_pairs two_players) \<Longrightarrow>
           \<not> isna (cell_of (record_of (stint_pairs two_players ! i)) c) \<Longrightarrow>
           cell_of (rows df ! i) c = cell_of (record_of (stint_pairs two_players ! i)) c"
    by blast
  have ids: "cell_of (record_of (stint_pairs two_players ! 0)) ''player_id'' = Num (Fin 1)"
    "cell_of (record_of (stint_pairs two_players ! 1)) ''player_id'' = Num (Fin 1)"
    "cell_of (record_of (stint_pairs two_players ! 2)) ''player_id'' = Num (Fin 2)"
    using two_players_ids len
    by (simp_all add: list_eq_iff_nth_eq)
  have "cell_of (rows df ! 0) ''player_id'' = Num (Fin 1)"
    using 3[of 0 "''player_id''"] ids len by simp
  moreover have "cell_of (rows df ! 1) ''player_id'' = Num (Fin 1)"
    using 3[of 1 "''player_id''"] ids len by simp
  moreover have "cell_of (rows df ! 2) ''player_id'' = Num (Fin 2)"
    using 3[of 2 "''player_id''"] ids len by simp
  ultimately show ?thesis using ne wf 1 2 len bad err by auto
qed

text \<open>
  Claim C9, as stated, fails: a non-empty response in which a block that is read is null
  yields no table. The \<open>.get\<close> on the null \<open>shots\<close> block raises, and the handler signals
  the error.
\<close>

theorem normalizer_null_block_counterexample:
  "length null_shots = 1 \<and> length (stint_pairs null_shots) = 1 \<and>
   process_players_data dp0 (Some (EntryList null_shots)) = (Inl (ProcessError AttributeError), dp0)"
  by code_simp

section \<open>The Metric Calculator\<close>

subsection \<open>Runs that complete\<close>

text \<open>
  When no exception occurs, every row of the returned table holds the quotient of
  minutes and appearances for a positive number of appearances and 0 for none, and no
  cell of the table is missing, NaN or infinite.
\<close>

lemma minutes_per_appearance_of_completed_run:
  assumes "calculate_player_metrics df = (None, df')" and "r \<in> set (rows df')"
  shows "\<exists>m a x. cell_of r ''minutes_played'' = Num (Fin m) \<and> cell_of r ''appearances'' = Num (Fin a) \<and>
            cell_of r ''minutes_per_appearance'' = Num (Fin x) \<and>
            (a > 0 \<longrightarrow> x = m / a) \<and> (a = 0 \<longrightarrow> x = 0)"
proof -
  from metrics_rows[OF assms] obtain r0 where
    K: "kept r0 r ''minutes_played''" "kept r0 r ''appearances''" and
    B: "cell_of r ''minutes_per_appearance'' = clean_cell (mpa_row r0)"
    by blast
  from K(1) obtain mf where m: "cell_of r0 ''minutes_played'' = Num mf"
    by (cases "cell_of r0 ''minutes_played''") (auto simp: kept_def)
  from K(2) obtain af where a: "cell_of r0 ''appearances'' = Num af"
    by (cases "cell_of r0 ''appearances''") (auto simp: kept_def)
  have "cell_of r ''minutes_played'' = clean_cell (Num mf)" "cell_of r ''appearances'' = clean_cell (Num af)"
    "cell_of r ''minutes_per_appearance'' = clean_cell (Num (fl_div mf af))"
    using K B m a by (simp_all add: kept_def mpa_row_def)
  note f = this
  from mpa_cases[of mf af] obtain m' a' x where
    "clean_cell (Num mf) = Num (Fin m')" "clean_cell (Num af) = Num (Fin a')"
    "clean_cell (Num (fl_div mf af)) = Num (Fin x)" "a' > 0 \<longrightarrow> x = m' / a'" "a' = 0 \<longrightarrow> x = 0"
    by blast
  then show ?thesis
    unfolding f by (intro exI[of _ m'] exI[of _ a'] exI[of _ x]) simp
qed

lemma cells_of_completed_run:
  assumes "calculate_player_metrics df = (None, df')" and "r \<in> set (rows df')" and "(k, v) \<in> set r"
  shows "\<not> isna v \<and> v \<noteq> Num PInf \<and> v \<noteq> Num NInf"
proof -
  from assms(1) obtain df4 where d': "df' = handle_missing_values (replace_inf df4)"
    by (rule metrics_success)
  from assms(2,3) obtain b u where "v = fill_cell b (replace_inf_cell u)"
    by (auto simp: d' handle_missing_values_def rows_replace_inf)
  then show ?thesis
    by (cases u rule: replace_inf_cell.cases; cases b) (auto simp: fill_cell_def)
qed

text \<open>
  Claim C5, as amended. On a run that completes, \<open>shot_conversion_rate\<close> and
  \<open>duels_success_rate\<close> are finite in every row, are exactly 0 when their denominator
  (\<open>shots_total\<close>, \<open>duels_total\<close>) is 0, and lie in [0, 100] when the numerator lies
  between 0 and the denominator.
\<close>

theorem rates_of_completed_run:
  assumes "calculate_player_metrics df = (None, df')" and "r \<in> set (rows df')"
  shows "(\<exists>g s x. cell_of r ''goals_total'' = Num (Fin g) \<and> cell_of r ''shots_total'' = Num (Fin s) \<and>
            cell_of r ''shot_conversion_rate'' = Num (Fin x) \<and>
            (s = 0 \<longrightarrow> x = 0) \<and> (0 \<le> g \<and> g \<le> s \<longrightarrow> 0 \<le> x \<and> x \<le> 100)) \<and>
         (\<exists>w t y. cell_of r ''duels_won'' = Num (Fin w) \<and> cell_of r ''duels_total'' = Num (Fin t) \<and>
            cell_of r ''duels_success_rate'' = Num (Fin y) \<and>
            (t = 0 \<longrightarrow> y = 0) \<and> (0 \<le> w \<and> w \<le> t \<longrightarrow> 0 \<le> y \<and> y \<le> 100))"
proof -
  from metrics_rows[OF assms] obtain r0 where
    K: "kept r0 r ''goals_total''" "kept r0 r ''shots_total''"
       "kept r0 r ''duels_won''" "kept r0 r ''duels_total''" and
    C: "cell_of r ''shot_conversion_rate'' = clean_cell (rate_row ''shots_total'' ''goals_total'' r0)" and
    D: "cell_of r ''duels_success_rate'' = clean_cell (rate_row ''duels_total'' ''duels_won'' r0)"
    by blast
  have shots: "\<exists>g s x. cell_of r ''goals_total'' = Num (Fin g) \<and> cell_of r ''shots_total'' = Num (Fin s) \<and>
            cell_of r ''shot_conversion_rate'' = Num (Fin x) \<and>
            (s = 0 \<longrightarrow> x = 0) \<and> (0 \<le> g \<and> g \<le> s \<longrightarrow> 0 \<le> x \<and> x \<le> 100)"
  proof -
    from K(1) obtain nf where n: "cell_of r0 ''goals_total'' = Num nf"
      by (cases "cell_of r0 ''goals_total''") (auto simp: kept_def)
    from K(2) obtain df where d: "cell_of r0 ''shots_total'' = Num df"
      by (cases "cell_of r0 ''shots_total''") (auto simp: kept_def)
    have "cell_of r ''goals_total'' = clean_cell (Num nf)" "cell_of r ''shots_total'' = clean_cell (Num df)"
      "cell_of r ''shot_conversion_rate'' = clean_cell (Num (rate nf df))"
      using K(1,2) C n d by (simp_all add: kept_def rate_row_def)
    note f = this
    from rate_cases[of nf df] obtain g s x where
      "clean_cell (Num nf) = Num (Fin g)" "clean_cell (Num df) = Num (Fin s)"
      "clean_cell (Num (rate nf df)) = Num (Fin x)" "s \<le> 0 \<longrightarrow> x = 0"
      "0 \<le> g \<and> g \<le> s \<longrightarrow> 0 \<le> x \<and> x \<le> 100"
      by blast
    then show ?thesis
      unfolding f by (intro exI[of _ g] exI[of _ s] exI[of _ x]) simp
  qed
  have duels: "\<exists>w t y. cell_of r ''duels_won'' = Num (Fin w) \<and> cell_of r ''duels_total'' = Num (Fin t) \<and>
            cell_of r ''duels_success_rate'' = Num (Fin y) \<and>
            (t = 0 \<longrightarrow> y = 0) \<and> (0 \<le> w \<and> w \<le> t \<longrightarrow> 0 \<le> y \<and> y \<le> 100)"
  proof -
    from K(3) obtain nf where n: "cell_of r0 ''duels_won'' = Num nf"
      by (cases "cell_of r0 ''duels_won''") (auto simp: kept_def)
    from K(4) obtain df where d: "cell_of r0 ''duels_total'' = Num df"
      by (cases "cell_of r0 ''duels_total''") (auto simp: kept_def)
    have "cell_of r ''duels_won'' = clean_cell (Num nf)" "cell_of r ''duels_total'' = clean_cell (Num df)"
      "cell_of r ''duels_success_rate'' = clean_cell (Num (rate nf df))"
      using K(3,4) D n d by (simp_all add: kept_def rate_row_def)
    note f = this
    from rate_cases[of nf df] obtain g s x where
      "clean_cell (Num nf) = Num (Fin g)" "clean_cell (Num df) = Num (Fin s)"
      "clean_cell (Num (rate nf df)) = Num (Fin x)" "s \<le> 0 \<longrightarrow> x = 0"
      "0 \<le> g \<and> g \<le> s \<longrightarrow> 0 \<le> x \<and> x \<le> 100"
      by blast
    then show ?thesis
      unfolding f by (intro exI[of _ g] exI[of _ s] exI[of _ x]) simp
  qed
  from shots duels show ?thesis by blast
qed

lemma completed_two: "fst (calculate_player_metrics (normalized two_players)) = None"
  by code_simp

lemma first_row_two:
  "0 < length (rows (snd (calculate_player_metrics (normalized two_players)))) \<and>
   cell_of (rows (snd (calculate_player_metrics (normalized two_players))) ! 0) ''goals_total''
     = Num (Fin 5) \<and>
   cell_of (rows (snd (calculate_player_metrics (normalized two_players))) ! 0) ''shots_total''
     = Num (Fin 20) \<and>
   cell_of (rows (snd (calculate_player_metrics (normalized two_players))) ! 0) ''duels_won''
     = Num (Fin 30) \<and>
   cell_of (rows (snd (calculate_player_metrics (normalized two_players))) ! 0) ''duels_total''
     = Num (Fin 50)"
  by code_simp

theorem rates_of_completed_run_witness:
  "fst (calculate_player_metrics (normalized two_players)) = None \<and>
   (\<exists>x y. cell_of (rows (snd (calculate_player_metrics (normalized two_players))) ! 0)
              ''shot_conversion_rate'' = Num (Fin x) \<and> 0 \<le> x \<and> x \<le> 100 \<and>
          cell_of (rows (snd (calculate_player_metrics (normalized two_players))) ! 0)
              ''duels_success_rate'' = Num (Fin y) \<and> 0 \<le> y \<and> y \<le> 100)"
proof -
  let ?r = "rows (snd (calculate_player_metrics (normalized two_players))) ! 0"
  have h: "calculate_player_metrics (normalized two_players)
             = (None, snd (calculate_player_metrics (normalized two_players)))"
    using completed_two by (metis prod.collapse)
  have r: "?r \<in> set (rows (snd (calculate_player_metrics (normalized two_players))))"
    using first_row_two by simp
  from rates_of_completed_run[OF h r] obtain g s x w t y where
    "cell_of ?r ''goals_total'' = Num (Fin g)" "cell_of ?r ''shots_total'' = Num (Fin s)"
    "cell_of ?r ''shot_conversion_rate'' = Num (Fin x)"
    "0 \<le> g \<and> g \<le> s \<longrightarrow> 0 \<le> x \<and> x \<le> 100"
    "cell_of ?r ''duels_won'' = Num (Fin w)" "cell_of ?r ''duels_total'' = Num (Fin t)"
    "cell_of ?r ''duels_success_rate'' = Num (Fin y)"
    "0 \<le> w \<and> w \<le> t \<longrightarrow> 0 \<le> y \<and> y \<le> 100"
    by blast
  then show ?thesis
    using completed_two first_row_two by auto
qed

text \<open>
  Claim C5, as stated, fails: nothing bounds the rate by 100. A player with two goals
  from one recorded shot gets a \<open>shot_conversion_rate\<close> of 200.
\<close>

theorem shot_conversion_rate_counterexample:
  "fst (process_players_data dp0 (Some (EntryList striker))) = Inr (normalized striker) \<and>
   fst (calculate_player_metrics (normalized striker)) = None \<and>
   series (snd (calculate_player_metrics (normalized striker))) ''shots_total'' = [Num (Fin 1)] \<and>
   series (snd (calculate_player_metrics (normalized striker))) ''shot_conversion_rate'' = [Num (Fin 200)] \<and>
   \<not> (200::real) \<le> 100"
  by code_simp

subsection \<open>Runs that raise\<close>

text \<open>
  Claim C7 at a failing input. For a squad whose shots are all unreported, the column
  \<open>shots_total\<close> holds empty strings, the comparison \<open>df['shots_total'] > 0\<close> raises, and
  the handler returns the table before the clean-up: the numeric column
  \<open>minutes_per_appearance\<close> holds NaN for the player without appearances.
\<close>

theorem unclean_table_after_error:
  "fst (process_players_data dp0 (Some (EntryList squad_without_shots))) = Inr (normalized squad_without_shots) \<and>
   fst (calculate_player_metrics (normalized squad_without_shots)) = Some (MetricsError TypeError) \<and>
   numeric_col (snd (calculate_player_metrics (normalized squad_without_shots))) ''minutes_per_appearance'' \<and>
   series (snd (calculate_player_metrics (normalized squad_without_shots))) ''minutes_per_appearance''
     = [Num (Fin 90), Num NaN]"
  by code_simp

text \<open>
  Claim C6 at the same input: the row with \<open>appearances = 0\<close> has
  \<open>minutes_per_appearance = NaN\<close>, not 0.
\<close>

theorem minutes_per_appearance_after_error:
  "fst (calculate_player_metrics (normalized squad_without_shots)) = Some (MetricsError TypeError) \<and>
   cell_of (rows (snd (calculate_player_metrics (normalized squad_without_shots))) ! 1) ''appearances''
     = Num (Fin 0) \<and>
   cell_of (rows (snd (calculate_player_metrics (normalized squad_without_shots))) ! 1) ''minutes_per_appearance''
     = Num NaN \<and>
   series (normalized squad_without_shots) ''shots_total'' = [Str '''', Str '''']"
  by code_simp

section \<open>Criteria queries\<close>

lemma filter_rows_Inr:
  "filter_rows p rs = Inr rs' \<Longrightarrow> set rs' \<subseteq> set rs \<and> (\<forall>r \<in> set rs'. p r = Inr True)"
  by (induction rs arbitrary: rs') (auto split: sum.splits if_splits)

lemma apply_criterion_subset:
  "apply_criterion df kv rs = Inr rs' \<Longrightarrow> set rs' \<subseteq> set rs"
  by (auto simp: apply_criterion_def compare_column_def Let_def split: if_splits dest!: filter_rows_Inr)

lemma apply_criterion_min:
  "apply_criterion df (key, v) rs = Inr rs' \<Longrightarrow> take 4 key = ''min_'' \<Longrightarrow> v \<noteq> Null \<Longrightarrow>
   drop 4 key \<in> set (columns df) \<Longrightarrow> r \<in> set rs' \<Longrightarrow> cell_ge (cell_of r (drop 4 key)) v = Inr True"
  by (auto simp: apply_criterion_def compare_column_def Let_def split: if_splits dest!: filter_rows_Inr)

lemma apply_criterion_max:
  "apply_criterion df (key, v) rs = Inr rs' \<Longrightarrow> take 4 key = ''max_'' \<Longrightarrow> v \<noteq> Null \<Longrightarrow>
   drop 4 key \<in> set (columns df) \<Longrightarrow> r \<in> set rs' \<Longrightarrow> cell_le (cell_of r (drop 4 key)) v = Inr True"
  by (auto simp: apply_criterion_def compare_column_def Let_def split: if_splits dest!: filter_rows_Inr)

lemma apply_criteria_subset:
  "apply_criteria df kvs rs = Inr rs' \<Longrightarrow> set rs' \<subseteq> set rs"
  by (induction kvs arbitrary: rs) (auto split: sum.splits dest: apply_criterion_subset)

lemma apply_criteria_min:
  "apply_criteria df kvs rs = Inr rs' \<Longrightarrow> (key, v) \<in> set kvs \<Longrightarrow> take 4 key = ''min_'' \<Longrightarrow>
   v \<noteq> Null \<Longrightarrow> drop 4 key \<in> set (columns df) \<Longrightarrow> r \<in> set rs' \<Longrightarrow>
   cell_ge (cell_of r (drop 4 key)) v = Inr True"
proof (induction kvs arbitrary: rs)
  case Nil then show ?case by simp
next
  case (Cons kv kvs)
  from Cons.prems(1) obtain rs1 where 1: "apply_criterion df kv rs = Inr rs1"
    and 2: "apply_criteria df kvs rs1 = Inr rs'"
    by (auto split: sum.splits)
  show ?case
  proof (cases "kv = (key, v)")
    case True
    have "r \<in> set rs1" using apply_criteria_subset[OF 2] Cons.prems(6) by auto
    with 1 True Cons.prems show ?thesis by (auto intro: apply_criterion_min)
  next
    case False
    with Cons.prems(2) have "(key, v) \<in> set kvs" by auto
    from Cons.IH[OF 2 this Cons.prems(3-6)] show ?thesis .
  qed
qed

lemma apply_criteria_max:
  "apply_criteria df kvs rs = Inr rs' \<Longrightarrow> (key, v) \<in> set kvs \<Longrightarrow> take 4 key = ''max_'' \<Longrightarrow>
   v \<noteq> Null \<Longrightarrow> drop 4 key \<in> set (columns df) \<Longrightarrow> r \<in> set rs' \<Longrightarrow>
   cell_le (cell_of r (drop 4 key)) v = Inr True"
proof (induction kvs arbitrary: rs)
  case Nil then show ?case by simp
next
  case (Cons kv kvs)
  from Cons.prems(1) obtain rs1 where 1: "apply_criterion df kv rs = Inr rs1"
    and 2: "apply_criteria df kvs rs1 = Inr rs'"
    by (auto split: sum.splits)
  show ?case
  proof (cases "kv = (key, v)")
    case True
    have "r \<in> set rs1" using apply_criteria_subset[OF 2] Cons.prems(6) by auto
    with 1 True Cons.prems show ?thesis by (auto intro: apply_criterion_max)
  next
    case False
    with Cons.prems(2) have "(key, v) \<in> set kvs" by auto
    from Cons.IH[OF 2 this Cons.prems(3-6)] show ?thesis .
  qed
qed

lemma set_insert_by: "set (insert_by le x xs) = insert x (set xs)"
  by (induction xs) auto

lemma set_sort_by: "set (sort_by le xs) = set xs"
  by (induction xs) (auto simp: sort_by_def set_insert_by)

lemma sort_by_rating_subset: "sort_by_rating rs = Inr rs' \<Longrightarrow> set rs' \<subseteq> set rs"
  by (auto simp: sort_by_rating_def Let_def set_sort_by split: if_splits)

lemma set_head: "set (head n xs) \<subseteq> set xs"
  by (auto simp: head_def dest: in_set_takeD)

lemma criteria_result:
  assumes "recommend_by_criteria s criteria n = Inr out"
  shows "\<exists>df rs0 rs1. players_df s = Some df \<and>
    set (rows out) \<subseteq> set rs1 \<and> apply_criteria df criteria rs0 = Inr rs1 \<and>
    (\<forall>pos. map_of criteria ''position'' = Some pos \<longrightarrow> truthy pos \<longrightarrow>
       rs0 = filter (\<lambda>r. py_eq (cell_of r ''position'') pos) (rows df))"
proof -
  from assms obtain df where df: "players_df s = Some df"
    by (auto simp: recommend_by_criteria_def split: option.splits)
  let ?P = "(case map_of criteria ''position'' of
                 None \<Rightarrow> Inr (rows df)
               | Some pos \<Rightarrow>
                  if truthy pos then
                    (if ''position'' \<in> set (columns df)
                     then Inr (filter (\<lambda>r. py_eq (cell_of r ''position'') pos) (rows df))
                     else Inl KeyError)
                  else Inr (rows df))"
  from assms df obtain rs0 where rs0: "?P = Inr rs0"
    by (auto simp: recommend_by_criteria_def split: sum.splits)
  from assms df rs0 obtain rs1 where rs1: "apply_criteria df criteria rs0 = Inr rs1"
    by (auto simp: recommend_by_criteria_def split: sum.splits)
  from assms df rs0 rs1 obtain rs2 where
    rs2: "(if ''rating'' \<in> set (columns df) then sort_by_rating rs1 else Inr rs1) = Inr rs2"
    and out: "out = df\<lparr>rows := head n rs2\<rparr>"
    by (auto simp: recommend_by_criteria_def split: sum.splits)
  have "set rs2 \<subseteq> set rs1" using rs2 sort_by_rating_subset by (auto split: if_splits)
  then have a: "set (rows out) \<subseteq> set rs1" using set_head[of n rs2] by (auto simp: out)
  have b: "rs0 = filter (\<lambda>r. py_eq (cell_of r ''position'') pos) (rows df)"
    if "map_of criteria ''position'' = Some pos" "truthy pos" for pos
    using rs0 that by (auto split: if_splits)
  show ?thesis using df a rs1 b by blast
qed

text \<open>
  Claim C4. Every row that a criteria query returns satisfies the position filter when a
  position is given (the value under \<open>position\<close> is not empty), satisfies
  \<open>column >= value\<close> for every supplied \<open>min_\<close> key and \<open>column <= value\<close> for every
  supplied \<open>max_\<close> key whose metric is a column of the table.
\<close>

theorem criteria_rows_satisfy_filters:
  assumes "recommend_by_criteria s criteria n = Inr out" and "players_df s = Some df"
    and "r \<in> set (rows out)"
  shows "(\<forall>pos. map_of criteria ''position'' = Some pos \<and> truthy pos \<longrightarrow>
            py_eq (cell_of r ''position'') pos) \<and>
         (\<forall>key v. (key, v) \<in> set criteria \<and> take 4 key = ''min_'' \<and> v \<noteq> Null \<and>
            drop 4 key \<in> set (columns df) \<longrightarrow> cell_ge (cell_of r (drop 4 key)) v = Inr True) \<and>
         (\<forall>key v. (key, v) \<in> set criteria \<and> take 4 key = ''max_'' \<and> v \<noteq> Null \<and>
            drop 4 key \<in> set (columns df) \<longrightarrow> cell_le (cell_of r (drop 4 key)) v = Inr True)"
proof -
  from criteria_result[OF assms(1)] obtain df' rs0 rs1 where
    df': "players_df s = Some df'" and sub: "set (rows out) \<subseteq> set rs1" and
    ac: "apply_criteria df' criteria rs0 = Inr rs1" and
    pos: "\<And>pos. map_of criteria ''position'' = Some pos \<Longrightarrow> truthy pos \<Longrightarrow>
       rs0 = filter (\<lambda>r. py_eq (cell_of r ''position'') pos) (rows df')"
    by blast
  have [simp]: "df' = df" using df' assms(2) by simp
  have r1: "r \<in> set rs1" using sub assms(3) by auto
  have r0: "r \<in> set rs0" using apply_criteria_subset[OF ac] r1 by auto
  have A: "py_eq (cell_of r ''position'') pos" if "map_of criteria ''position'' = Some pos" "truthy pos" for pos
    using pos[OF that] r0 by simp
  have B: "cell_ge (cell_of r (drop 4 key)) v = Inr True"
    if "(key, v) \<in> set criteria" "take 4 key = ''min_''" "v \<noteq> Null" "drop 4 key \<in> set (columns df)" for key v
    using apply_criteria_min[OF ac that(1,2,3) _ r1] that(4) by simp
  have C: "cell_le (cell_of r (drop 4 key)) v = Inr True"
    if "(key, v) \<in> set criteria" "take 4 key = ''max_''" "v \<noteq> Null" "drop 4 key \<in> set (columns df)" for key v
    using apply_criteria_max[OF ac that(1,2,3) _ r1] that(4) by simp
  show ?thesis using A B C by blast
qed

lemma defenders_query:
  "recommend_by_criteria (set_data init_recommender (Some defenders)) defender_criteria 5
     = Inr (defenders\<lparr>rows := [defender_row 3 ''Defender'' 70 7, defender_row 2 ''Defender'' 55 (13 / 2)]\<rparr>)"
  by code_simp

theorem criteria_rows_satisfy_filters_witness:
  "\<exists>out. recommend_by_criteria (set_data init_recommender (Some defenders)) defender_criteria 5 = Inr out \<and>
     series out ''player_id'' = [Num (Fin 3), Num (Fin 2)] \<and>
     py_eq (cell_of (rows out ! 0) ''position'') (Str ''Defender'') \<and>
     cell_ge (cell_of (rows out ! 0) ''tackles_total'') (Num (Fin 50)) = Inr True \<and>
     cell_le (cell_of (rows out ! 0) ''rating'') (Num (Fin 9)) = Inr True"
proof -
  let ?s = "set_data init_recommender (Some defenders)"
  let ?out = "defenders\<lparr>rows := [defender_row 3 ''Defender'' 70 7, defender_row 2 ''Defender'' 55 (13 / 2)]\<rparr>"
  have df: "players_df ?s = Some defenders" by (simp add: set_data_def)
  have r: "rows ?out ! 0 \<in> set (rows ?out)" by simp
  note T = criteria_rows_satisfy_filters[OF defenders_query df r]
  have pos: "map_of defender_criteria ''position'' = Some (Str ''Defender'') \<and> truthy (Str ''Defender'')"
    by code_simp
  have mn: "(''min_tackles_total'', Num (Fin 50)) \<in> set defender_criteria \<and>
            take 4 ''min_tackles_total'' = ''min_'' \<and> Num (Fin 50) \<noteq> Null \<and>
            drop 4 ''min_tackles_total'' \<in> set (columns defenders)"
    by (simp add: defender_criteria_def defenders_def)
  have mx: "(''max_rating'', Num (Fin 9)) \<in> set defender_criteria \<and>
            take 4 ''max_rating'' = ''max_'' \<and> Num (Fin 9) \<noteq> Null \<and>
            drop 4 ''max_rating'' \<in> set (columns defenders)"
    by (simp add: defender_criteria_def defenders_def)
  have 1: "py_eq (cell_of (rows ?out ! 0) ''position'') (Str ''Defender'')"
    using T pos by blast
  have 2: "cell_ge (cell_of (rows ?out ! 0) (drop 4 ''min_tackles_total'')) (Num (Fin 50)) = Inr True"
    using T mn by blast
  have 3: "cell_le (cell_of (rows ?out ! 0) (drop 4 ''max_rating'')) (Num (Fin 9)) = Inr True"
    using T mx by blast
  have ids: "series ?out ''player_id'' = [Num (Fin 3), Num (Fin 2)]"
    by code_simp
  show ?thesis
    using defenders_query ids 1 2 3 by (intro exI[of _ ?out]) simp
qed

section \<open>Lemmas on the recommender\<close>

lemma euclidean_nonneg: "0 \<le> euclidean q x"
  by (auto simp: euclidean_def intro!: sum_list_nonneg)

lemma kneighbors_Inr:
  assumes "kneighbors m q k = Inr found"
  shows "0 < k" and "k \<le> int (length (fit_X m))" and "length found = nat k"
    and "sorted (map fst found)" and "\<forall>p \<in> set found. 0 \<le> fst p \<and> snd p < length (fit_X m)"
proof -
  let ?all = "sort_key fst (zip (map (euclidean q) (fit_X m)) [0..<length (fit_X m)])"
  from assms have k: "0 < k" "k \<le> int (length (fit_X m))" and f: "found = take (nat k) ?all"
    by (auto simp: kneighbors_def split: if_splits)
  show "0 < k" "k \<le> int (length (fit_X m))" using k by auto
  show "length found = nat k" using k by (simp add: f)
  have "sorted (map fst ?all)" by (rule sorted_sort_key)
  then show "sorted (map fst found)"
    unfolding f take_map[symmetric] by (rule sorted_wrt_take)
  have "\<forall>p \<in> set ?all. 0 \<le> fst p \<and> snd p < length (fit_X m)"
    by (auto simp: set_zip euclidean_nonneg)
  then show "\<forall>p \<in> set found. 0 \<le> fst p \<and> snd p < length (fit_X m)"
    unfolding f by (meson in_set_takeD)
qed

lemma similar_result:
  assumes "fst (recommend_similar_players L s pid n) = Inr res"
  shows "\<exists>m df idx rest X fs ps s2 found rs.
     knn_model (lazy_train L s) = Some m \<and> players_df (lazy_train L s) = Some df \<and>
     player_rows df pid = idx # rest \<and>
     preprocess_data L (lazy_train L s) = (Inr (X, fs, ps), s2) \<and>
     kneighbors m (X ! idx) (n + 1) = Inr found \<and>
     iloc df (map snd (tl found)) = Inr rs \<and>
     similar_distances res = map fst (tl found) \<and>
     similar_players res = set_col (df\<lparr>rows := rs\<rparr>) ''similarity_score''
                             (map (\<lambda>d. Num (Fin (1 / (1 + d)))) (map fst (tl found)))"
  using assms
  by (auto simp: recommend_similar_players_def Let_def
      split: option.splits list.splits sum.splits if_splits prod.splits)

text \<open>The vector named \<open>query_vector\<close> is the one a successful query searches with.\<close>

lemma query_vector_used:
  assumes "fst (recommend_similar_players L s pid n) = Inr res"
  shows "\<exists>m v found. knn_model (lazy_train L s) = Some m \<and> query_vector L s pid = Some v \<and>
           kneighbors m v (n + 1) = Inr found \<and> similar_distances res = map fst (tl found)"
proof -
  from similar_result[OF assms] obtain m df idx rest X fs ps s2 found where
    "knn_model (lazy_train L s) = Some m" "players_df (lazy_train L s) = Some df"
    "player_rows df pid = idx # rest"
    "preprocess_data L (lazy_train L s) = (Inr (X, fs, ps), s2)"
    "kneighbors m (X ! idx) (n + 1) = Inr found"
    "similar_distances res = map fst (tl found)"
    by blast
  then show ?thesis by (simp add: query_vector_def Let_def)
qed

lemma iloc_Inr: "iloc df is = Inr rs \<Longrightarrow> rs = map (\<lambda>i. rows df ! i) is"
  by (auto simp: iloc_def split: if_splits)


lemma length_rows_set_col: "length vs = length (rows df) \<Longrightarrow> length (rows (set_col df c vs)) = length vs"
  by (simp add: set_col_def)



lemma cluster_not_candidate: "''cluster'' \<notin> set candidate_features"
  by (simp add: candidate_features_def)

lemma rows_set_col: "length vs = length (rows df) \<Longrightarrow>
   rows (set_col df c vs) = map (\<lambda>(r, v). AList.update c v r) (zip (rows df) vs)"
  by (simp add: set_col_def)

lemma series_set_col_other:
  assumes "length vs = length (rows df)" "c' \<noteq> c"
  shows "series (set_col df c vs) c' = series df c'"
proof -
  have "map ((\<lambda>r. cell_of r c') \<circ> (\<lambda>(r, v). AList.update c v r)) (zip xs ys) = map (\<lambda>r. cell_of r c') xs"
    if "length ys = length xs" for xs :: "row list" and ys
    using that assms(2) by (induction xs ys rule: list_induct2') (auto simp: cell_of_update)
  then show ?thesis using assms(1) by (simp add: series_def set_col_def)
qed

lemma existing_columns_cluster:
  "existing_columns (set_col df ''cluster'' vs) = existing_columns df"
proof -
  have "(col \<in> set (columns (set_col df ''cluster'' vs))) = (col \<in> set (columns df))"
    if "col \<in> set candidate_features" for col
    using that cluster_not_candidate by (auto simp: set_col_def)
  then show ?thesis unfolding existing_columns_def by (intro filter_cong refl)
qed

lemma feature_matrix_cluster:
  assumes "length vs = length (rows df)" "''cluster'' \<notin> set cs"
  shows "feature_matrix L (set_col df ''cluster'' vs) cs = feature_matrix L df cs"
proof -
  have eq: "map (\<lambda>c. sequence (map (to_float L) (series (set_col df ''cluster'' vs) c))) cs
        = map (\<lambda>c. sequence (map (to_float L) (series df c))) cs"
  proof (intro map_cong refl)
    fix c assume "c \<in> set cs"
    with assms(2) have "c \<noteq> ''cluster''" by auto
    then show "sequence (map (to_float L) (series (set_col df ''cluster'' vs) c))
        = sequence (map (to_float L) (series df c))"
      using series_set_col_other[OF assms(1), of c "''cluster''"] by simp
  qed
  show ?thesis unfolding feature_matrix_def by (simp only: eq)
qed

lemma existing_subset: "set (existing_columns df) \<subseteq> set candidate_features"
  by (auto simp: existing_columns_def)

lemma player_rows_cluster:
  assumes "length vs = length (rows df)"
  shows "player_rows (set_col df ''cluster'' vs) pid = player_rows df pid"
proof -
  have "cell_of (rows (set_col df ''cluster'' vs) ! i) ''player_id'' = cell_of (rows df ! i) ''player_id''"
    if "i < length (rows df)" for i
    using that assms by (simp add: rows_set_col cell_of_update)
  moreover have "length (rows (set_col df ''cluster'' vs)) = length (rows df)"
    using assms by (simp add: rows_set_col)
  ultimately show ?thesis
    unfolding player_rows_def by (intro filter_cong) simp_all
qed

lemma preprocess_data_eval:
  assumes "players_df s = Some df" "rows df \<noteq> []" "5 \<le> length (existing_columns df)"
    "feature_matrix L df (existing_columns df) = Inr cols" "pipeline_fit cols = Inr ps"
  shows "preprocess_data L s =
     (Inr (pipeline_transform ps (length (rows df)) cols, existing_columns df, ps),
      s\<lparr>feature_columns := Some candidate_features, scaler := Some (fitted_scaler ps)\<rparr>)"
  using assms by (simp add: preprocess_data_def Let_def)

lemma preprocess_data_Inr:
  assumes "preprocess_data L s = (Inr (X, fs, ps), s1)"
  shows "\<exists>df cols. players_df s = Some df \<and> rows df \<noteq> [] \<and> 5 \<le> length (existing_columns df) \<and>
     fs = existing_columns df \<and> feature_matrix L df fs = Inr cols \<and> pipeline_fit cols = Inr ps \<and>
     X = pipeline_transform ps (length (rows df)) cols \<and>
     s1 = s\<lparr>feature_columns := Some candidate_features, scaler := Some (fitted_scaler ps)\<rparr>"
  using assms
  by (auto simp: preprocess_data_def Let_def split: option.splits if_splits sum.splits)

lemma length_pipeline_transform: "length (pipeline_transform ps n cols) = n"
  by (simp add: pipeline_transform_def rows_of_def)

lemma train_models_None:
  assumes "train_models L s = (None, s')" "preprocess_data L s = (Inr (X, fs, ps), s1)"
  shows "\<exists>df labels. players_df s = Some df \<and> length labels = length (rows df) \<and>
     knn_model s' = Some \<lparr>n_neighbors = min 11 (length X), fit_X = X\<rparr> \<and>
     scaler s' = Some (fitted_scaler ps) \<and>
     players_df s' = Some (set_col df ''cluster'' (map (\<lambda>l. Num (Fin (real l))) labels))"
proof -
  from preprocess_data_Inr[OF assms(2)] obtain df where
    df: "players_df s = Some df" and
    s1: "s1 = s\<lparr>feature_columns := Some candidate_features, scaler := Some (fitted_scaler ps)\<rparr>"
    by blast
  from assms show ?thesis
    by (auto simp: train_models_def Let_def df s1 split: option.splits if_splits)
qed

lemma sequence_list_all2:
  "sequence (map f xs) = Inr ys \<Longrightarrow> list_all2 (\<lambda>x y. f x = Inr y) xs ys"
  by (induction xs arbitrary: ys) (auto split: sum.splits)

lemma feature_matrix_lengths:
  assumes "feature_matrix L df cs = Inr cols"
  shows "\<forall>col \<in> set cols. length col = length (rows df)"
proof -
  from assms have a: "list_all2 (\<lambda>c col. sequence (map (to_float L) (series df c)) = Inr col) cs cols"
    unfolding feature_matrix_def by (rule sequence_list_all2)
  show ?thesis
  proof
    fix col assume "col \<in> set cols"
    with a obtain c where "sequence (map (to_float L) (series df c)) = Inr col"
      by (auto simp: list_all2_conv_all_nth in_set_conv_nth)
    from sequence_list_all2[OF this] have "length col = length (series df c)"
      by (simp add: list_all2_lengthD)
    then show "length col = length (rows df)" by (simp add: series_def)
  qed
qed

lemma imputer_transform_lengths:
  "\<forall>col \<in> set cols. length col = n \<Longrightarrow> \<forall>col \<in> set (imputer_transform st cols). length col = n"
  by (auto simp: imputer_transform_def set_zip split: option.splits)

lemma imputer_transform_nth:
  "map (\<lambda>col. col ! i) (concat (map (\<lambda>(m, col). case m of None \<Rightarrow> [] | Some mu \<Rightarrow> [map (impute_value mu) col])
                 (zip st cols)))
   = concat (map (\<lambda>(m, x). case m of None \<Rightarrow> [] | Some mu \<Rightarrow> [impute_value mu x])
                 (zip st (map (\<lambda>col. col ! i) cols)))"
  if "\<forall>col \<in> set cols. i < length col"
  using that
proof (induction st arbitrary: cols)
  case Nil
  then show ?case by simp
next
  case (Cons m st)
  then show ?case by (cases cols) (auto split: option.splits)
qed

lemma scaler_transform_nth:
  "\<forall>col \<in> set A. i < length col \<Longrightarrow>
   map (\<lambda>col. col ! i) (map (\<lambda>(col, m, sd). map (\<lambda>x. (x - m) / sd) col) (zip A B))
   = map (\<lambda>(x, m, sd). (x - m) / sd) (zip (map (\<lambda>col. col ! i) A) B)"
proof (induction A arbitrary: B)
  case Nil
  then show ?case by simp
next
  case (Cons a A)
  then show ?case by (cases B) auto
qed

lemma pipeline_transform_nth:
  assumes "i < n" "\<forall>col \<in> set cols. length col = n"
  shows "pipeline_transform ps n cols ! i = transform_row ps (map (\<lambda>col. col ! i) cols)"
proof -
  let ?A = "imputer_transform (imp_statistics ps) cols"
  have lenA: "\<forall>col \<in> set ?A. i < length col"
    using imputer_transform_lengths[OF assms(2)] assms(1) by auto
  have lenC: "\<forall>col \<in> set cols. i < length col" using assms by auto
  have "pipeline_transform ps n cols ! i
        = map (\<lambda>col. col ! i) (scaler_transform (fitted_scaler ps) ?A)"
    using assms(1) by (simp add: pipeline_transform_def rows_of_def)
  also have "\<dots> = map (\<lambda>(x, m, sd). (x - m) / sd)
       (zip (map (\<lambda>col. col ! i) ?A) (zip (sc_mean (fitted_scaler ps)) (sc_scale (fitted_scaler ps))))"
    unfolding scaler_transform_def by (rule scaler_transform_nth[OF lenA])
  also have "map (\<lambda>col. col ! i) ?A
       = concat (map (\<lambda>(m, x). case m of None \<Rightarrow> [] | Some mu \<Rightarrow> [impute_value mu x])
                 (zip (imp_statistics ps) (map (\<lambda>col. col ! i) cols)))"
    unfolding imputer_transform_def by (rule imputer_transform_nth[OF lenC])
  finally show ?thesis by (simp add: transform_row_def)
qed

lemma player_rows_bound: "player_rows df pid = idx # rest \<Longrightarrow> idx < length (rows df)"
proof -
  assume "player_rows df pid = idx # rest"
  then have "idx \<in> set (player_rows df pid)" by simp
  then show ?thesis unfolding player_rows_def by simp
qed

lemma distinct_candidates: "distinct candidate_features"
  by (simp add: candidate_features_def)

lemma length_existing_columns:
  "length (existing_columns df) = card (set candidate_features \<inter> set (columns df))"
proof -
  have "length (existing_columns df)
          = card ({x. x \<in> set (columns df)} \<inter> set candidate_features)"
    unfolding existing_columns_def by (rule distinct_length_filter[OF distinct_candidates])
  also have "{x. x \<in> set (columns df)} \<inter> set candidate_features
               = set candidate_features \<inter> set (columns df)"
    by auto
  finally show ?thesis .
qed

lemma stints_existing: "existing_columns stints_table = stints_features"
  by code_simp

lemma stints_feature_matrix: "feature_matrix lib0 stints_table stints_features = Inr stints_cols"
  by code_simp

lemma sqrt_250000: "sqrt 250000 = 500"
  by (rule real_sqrt_unique) simp_all

lemma stints_fit: "pipeline_fit stints_cols = Inr stints_ps"
  by (simp add: pipeline_fit_def stints_cols_def stints_ps_def imputer_statistic_def
      imputer_transform_def impute_value_def scaler_fit_def mean_def variance_def Let_def sqrt_250000)

lemma stints_transform: "pipeline_transform stints_ps 4 stints_cols = stints_X"
  by code_simp

lemma sqrt_sq_facts: "sqrt (36 / 25) = 6 / 5" "sqrt (64 / 25) = 8 / 5" "sqrt (196 / 25) = 14 / 5"
  by (rule real_sqrt_unique; simp add: power2_eq_square)+

lemma upt4: "[0..<4] = [0, 1, 2, 3]"
  by code_simp

lemma stints_kneighbors:
  "kneighbors stints_index (stints_X ! 0) 3 = Inr [(0, 0), (6 / 5, 1), (8 / 5, 2)]"
  by (simp add: stints_index_def kneighbors_def stints_X_def euclidean_def upt4 sqrt_sq_facts power2_eq_square)

lemma stints_kneighbors_5:
  "kneighbors stints_index (stints_X ! 0) 5 = Inl ValueError"
  by (simp add: stints_index_def kneighbors_def stints_X_def)

lemma stints_rows: "length (rows stints_table) = 4 \<and> rows stints_table \<noteq> []"
  by (simp add: stints_table_def)

lemma stints_preprocess:
  assumes "players_df s = Some stints_table"
  shows "preprocess_data lib0 s =
     (Inr (stints_X, stints_features, stints_ps),
      s\<lparr>feature_columns := Some candidate_features, scaler := Some (fitted_scaler stints_ps)\<rparr>)"
proof -
  have five: "5 \<le> length (existing_columns stints_table)"
    by (simp add: stints_existing stints_features_def)
  have fm: "feature_matrix lib0 stints_table (existing_columns stints_table) = Inr stints_cols"
    by (simp add: stints_existing stints_feature_matrix)
  from preprocess_data_eval[OF assms _ five fm stints_fit] show ?thesis
    using stints_rows by (simp add: stints_transform stints_existing)
qed

lemma stints_train: "train_models lib0 stints_loaded = (None, stints_trained)"
proof -
  have df: "players_df stints_loaded = Some stints_table"
    by (simp add: stints_loaded_def set_data_def)
  have X: "length stints_X = 4" by (simp add: stints_X_def)
  have km: "kmeans_fit_predict lib0 4 stints_X = Some [0, 0, 0, 0]"
    by (simp add: lib0_def stints_X_def)
  show ?thesis
    unfolding train_models_def stints_preprocess[OF df]
    using stints_rows
    by (simp add: X km Let_def df stints_trained_def stints_loaded_def set_data_def
        init_recommender_def stints_index_def stints_trained_table_def)
qed

lemma stints_lazy: "lazy_train lib0 stints_loaded = stints_trained"
  by (simp add: lazy_train_def stints_train) (simp add: stints_loaded_def set_data_def init_recommender_def)

lemma stints_trained_rows: "length (rows stints_trained_table) = 4 \<and> rows stints_trained_table \<noteq> []"
  using stints_rows by (auto simp: stints_trained_table_def rows_set_col)

lemma stints_trained_preprocess:
  assumes "players_df s = Some stints_trained_table"
  shows "preprocess_data lib0 s =
     (Inr (stints_X, stints_features, stints_ps),
      s\<lparr>feature_columns := Some candidate_features, scaler := Some (fitted_scaler stints_ps)\<rparr>)"
proof -
  have lv: "length [Num (Fin 0), Num (Fin 0), Num (Fin 0), Num (Fin 0)] = length (rows stints_table)"
    using stints_rows by simp
  have ex: "existing_columns stints_trained_table = stints_features"
    unfolding stints_trained_table_def by (simp add: existing_columns_cluster stints_existing)
  have five: "5 \<le> length (existing_columns stints_trained_table)"
    by (simp add: ex stints_features_def)
  have nc: "''cluster'' \<notin> set stints_features" by (simp add: stints_features_def)
  have fm: "feature_matrix lib0 stints_trained_table (existing_columns stints_trained_table) = Inr stints_cols"
    unfolding ex unfolding stints_trained_table_def
    using feature_matrix_cluster[OF lv nc, of lib0] by (simp add: stints_feature_matrix)
  from preprocess_data_eval[OF assms _ five fm stints_fit] show ?thesis
    using stints_trained_rows by (simp add: stints_transform ex)
qed

lemma stints_player_rows: "player_rows stints_trained_table 1 = [0, 2]"
  by code_simp

lemma stints_player_id_col: "''player_id'' \<in> set (columns stints_trained_table)"
  by code_simp

lemma recommend_eval:
  assumes "lazy_train L s = s1" "knn_model s1 = Some m" "players_df s1 = Some df"
    "''player_id'' \<in> set (columns df)" "player_rows df pid = idx # rest"
    "preprocess_data L s1 = (Inr (X, fs, ps), s2)"
    "kneighbors m (X ! idx) (n + 1) = Inr found"
    "iloc df (map snd (tl found)) = Inr rs"
  shows "recommend_similar_players L s pid n =
     (Inr \<lparr>similar_players = set_col (df\<lparr>rows := rs\<rparr>) ''similarity_score''
                                (map (\<lambda>d. Num (Fin (1 / (1 + d)))) (map fst (tl found))),
           similar_distances = map fst (tl found)\<rparr>, s2)"
  using assms by (simp add: recommend_similar_players_def Let_def)

lemma recommend_eval_knn_error:
  assumes "lazy_train L s = s1" "knn_model s1 = Some m" "players_df s1 = Some df"
    "''player_id'' \<in> set (columns df)" "player_rows df pid = idx # rest"
    "preprocess_data L s1 = (Inr (X, fs, ps), s2)"
    "kneighbors m (X ! idx) (n + 1) = Inl e"
  shows "recommend_similar_players L s pid n = (Inl (RecommendError e), s2)"
  using assms by (simp add: recommend_similar_players_def Let_def)

lemma stints_query:
  "recommend_similar_players lib0 stints_loaded 1 2 = (Inr stints_answer, stints_trained)"
proof -
  have k: "knn_model stints_trained = Some stints_index" by (simp add: stints_trained_def)
  have d: "players_df stints_trained = Some stints_trained_table" by (simp add: stints_trained_def)
  have pre: "preprocess_data lib0 stints_trained
      = (Inr (stints_X, stints_features, stints_ps), stints_trained)"
    using stints_trained_preprocess[OF d] by (simp add: stints_trained_def)
  have kn: "kneighbors stints_index (stints_X ! 0) (2 + 1) = Inr [(0, 0), (6 / 5, 1), (8 / 5, 2)]"
    using stints_kneighbors by simp
  have il: "iloc stints_trained_table (map snd (tl [(0::real, 0::nat), (6 / 5, 1), (8 / 5, 2)]))
      = Inr [rows stints_trained_table ! 1, rows stints_trained_table ! 2]"
    using stints_trained_rows by (simp add: iloc_def)
  from recommend_eval[OF stints_lazy k d stints_player_id_col stints_player_rows pre kn il]
  show ?thesis by (simp add: stints_answer_def)
qed

lemma stints_query_too_many:
  "recommend_similar_players lib0 stints_loaded 1 4 = (Inl (RecommendError ValueError), stints_trained)"
proof -
  have k: "knn_model stints_trained = Some stints_index" by (simp add: stints_trained_def)
  have d: "players_df stints_trained = Some stints_trained_table" by (simp add: stints_trained_def)
  have pre: "preprocess_data lib0 stints_trained
      = (Inr (stints_X, stints_features, stints_ps), stints_trained)"
    using stints_trained_preprocess[OF d] by (simp add: stints_trained_def)
  have kn: "kneighbors stints_index (stints_X ! 0) (4 + 1) = Inl ValueError"
    using stints_kneighbors_5 by simp
  from recommend_eval_knn_error[OF stints_lazy k d stints_player_id_col stints_player_rows pre kn]
  show ?thesis .
qed

lemma stints_answer_ids:
  "series (similar_players stints_answer) ''player_id'' = [Num (Fin 2), Num (Fin 1)] \<and>
   series (similar_players stints_answer) ''minutes_played'' = [Num (Fin 700), Num (Fin 900)] \<and>
   series (similar_players stints_answer) ''similarity_score'' = [Num (Fin (5 / 11)), Num (Fin (5 / 13))]"
  by code_simp

lemma stints2_existing: "existing_columns stints_table2 = stints_features"
  by code_simp

lemma stints2_feature_matrix: "feature_matrix lib0 stints_table2 stints_features = Inr stints_cols2"
  by code_simp

lemma sqrt_1000000: "sqrt 1000000 = 1000"
  by (rule real_sqrt_unique) simp_all

lemma stints2_fit: "pipeline_fit stints_cols2 = Inr stints_ps2"
  by (simp add: pipeline_fit_def stints_cols2_def stints_ps2_def imputer_statistic_def
      imputer_transform_def impute_value_def scaler_fit_def mean_def variance_def Let_def sqrt_1000000)

lemma stints2_transform: "pipeline_transform stints_ps2 4 stints_cols2 = stints_X"
  by code_simp

lemma stints2_rows: "length (rows stints_table2) = 4 \<and> rows stints_table2 \<noteq> []"
  by (simp add: stints_table2_def)

lemma stints2_preprocess:
  assumes "players_df s = Some stints_table2"
  shows "preprocess_data lib0 s =
     (Inr (stints_X, stints_features, stints_ps2),
      s\<lparr>feature_columns := Some candidate_features, scaler := Some (fitted_scaler stints_ps2)\<rparr>)"
proof -
  have five: "5 \<le> length (existing_columns stints_table2)"
    by (simp add: stints2_existing stints_features_def)
  have fm: "feature_matrix lib0 stints_table2 (existing_columns stints_table2) = Inr stints_cols2"
    by (simp add: stints2_existing stints2_feature_matrix)
  from preprocess_data_eval[OF assms _ five fm stints2_fit] show ?thesis
    using stints2_rows by (simp add: stints2_transform stints2_existing)
qed

lemma stints_reloaded_eq: "stints_reloaded = set_data stints_trained (Some stints_table2)"
  by (simp add: stints_reloaded_def stints_train)

lemma stints2_player_rows: "player_rows stints_table2 1 = [0, 2]"
  by code_simp

lemma stints2_player_id_col: "''player_id'' \<in> set (columns stints_table2)"
  by code_simp

lemma stints_reloaded_facts:
  "knn_model stints_reloaded = Some stints_index \<and>
   players_df stints_reloaded = Some stints_table2 \<and>
   scaler stints_reloaded = Some (fitted_scaler stints_ps) \<and>
   lazy_train lib0 stints_reloaded = stints_reloaded"
  by (simp add: stints_reloaded_eq set_data_def stints_trained_def lazy_train_def)

lemma stints_reloaded_query_vector: "query_vector lib0 stints_reloaded 1 = Some (stints_X ! 0)"
  using stints_reloaded_facts stints2_preprocess[of stints_reloaded] stints2_player_rows
  by (simp add: query_vector_def Let_def)

lemma stints_reloaded_query_state:
  "scaler (snd (recommend_similar_players lib0 stints_reloaded 1 2)) = Some (fitted_scaler stints_ps2)"
proof -
  have f: "lazy_train lib0 stints_reloaded = stints_reloaded"
    "knn_model stints_reloaded = Some stints_index"
    "players_df stints_reloaded = Some stints_table2"
    using stints_reloaded_facts by auto
  have kn: "kneighbors stints_index (stints_X ! 0) (2 + 1) = Inr [(0, 0), (6 / 5, 1), (8 / 5, 2)]"
    using stints_kneighbors by simp
  have il: "iloc stints_table2 (map snd (tl [(0::real, 0::nat), (6 / 5, 1), (8 / 5, 2)]))
      = Inr [rows stints_table2 ! 1, rows stints_table2 ! 2]"
    using stints2_rows by (simp add: iloc_def)
  from recommend_eval[OF f(1) f(2) f(3) stints2_player_id_col stints2_player_rows
      stints2_preprocess[OF f(3)] kn il]
  show ?thesis by simp
qed

lemma three_existing: "existing_columns three_features = [''age'', ''rating'', ''goals_total'']"
  by code_simp

section \<open>Similarity queries\<close>



text \<open>
  Claim C10. When the index was fitted on \<open>n\<close> rows, a query with
  \<open>n_recommendations + 1 > n\<close> ends in an error, and every successful query has
  \<open>n_recommendations + 1 \<le> n\<close> and returns exactly \<open>n_recommendations\<close> rows.
\<close>

theorem too_many_neighbours_fails:
  assumes "knn_model (lazy_train L s) = Some m"
  shows "(int (length (fit_X m)) < n + 1 \<longrightarrow>
            (\<exists>e. fst (recommend_similar_players L s pid n) = Inl e)) \<and>
         (\<forall>res. fst (recommend_similar_players L s pid n) = Inr res \<longrightarrow>
            n + 1 \<le> int (length (fit_X m)) \<and>
            int (length (rows (similar_players res))) = n \<and>
            int (length (similar_distances res)) = n)"
proof -
  have ok: "n + 1 \<le> int (length (fit_X m)) \<and>
            int (length (rows (similar_players res))) = n \<and>
            int (length (similar_distances res)) = n"
    if r: "fst (recommend_similar_players L s pid n) = Inr res" for res
  proof -
    from similar_result[OF r] assms obtain df idx X found rs where
      kn: "kneighbors m (X ! idx) (n + 1) = Inr found" and
      il: "iloc df (map snd (tl found)) = Inr rs" and
      ds: "similar_distances res = map fst (tl found)" and
      sp: "similar_players res = set_col (df\<lparr>rows := rs\<rparr>) ''similarity_score''
                             (map (\<lambda>d. Num (Fin (1 / (1 + d)))) (map fst (tl found)))"
      by auto
    have k: "0 < n + 1" "n + 1 \<le> int (length (fit_X m))" "length found = nat (n + 1)"
      using kneighbors_Inr(1-3)[OF kn] by auto
    have len_rs: "length rs = length (tl found)" using iloc_Inr[OF il] by simp
    have "length (rows (similar_players res)) = length (tl found)"
      unfolding sp using len_rs by (simp add: length_rows_set_col)
    then show ?thesis using k by (simp add: ds)
  qed
  show ?thesis
  proof (intro conjI impI allI)
    assume lt: "int (length (fit_X m)) < n + 1"
    show "\<exists>e. fst (recommend_similar_players L s pid n) = Inl e"
    proof (cases "fst (recommend_similar_players L s pid n)")
      case (Inl e) then show ?thesis by blast
    next
      case (Inr res) with ok[of res] lt show ?thesis by simp
    qed
  qed (use ok in auto)
qed

theorem too_many_neighbours_fails_witness:
  "knn_model (lazy_train lib0 stints_loaded) = Some stints_index \<and>
   length (fit_X stints_index) = 4 \<and>
   (\<exists>e. fst (recommend_similar_players lib0 stints_loaded 1 4) = Inl e) \<and>
   fst (recommend_similar_players lib0 stints_loaded 1 2) = Inr stints_answer \<and>
   int (length (rows (similar_players stints_answer))) = 2"
proof -
  have k: "knn_model (lazy_train lib0 stints_loaded) = Some stints_index"
    by (simp add: stints_lazy stints_trained_def)
  have n: "length (fit_X stints_index) = 4" by (simp add: stints_index_def stints_X_def)
  have h: "fst (recommend_similar_players lib0 stints_loaded 1 2) = Inr stints_answer"
    by (simp add: stints_query)
  have a: "\<exists>e. fst (recommend_similar_players lib0 stints_loaded 1 4) = Inl e"
    using too_many_neighbours_fails[OF k, where n=4 and pid=1] n by simp
  have b: "int (length (rows (similar_players stints_answer))) = 2"
    using too_many_neighbours_fails[OF k, where n=2 and pid=1] h by simp
  show ?thesis using k n a h b by blast
qed

text \<open>
  Claim C1 at a failing input. Player 1 has two stint rows (rows 0 and 2). The query for
  two players similar to player 1 searches from row 0, drops the first neighbour (row 0
  itself) and returns rows 1 and 2: the second result is the other stint of player 1, a
  row whose \<open>player_id\<close> is the reference's. No two rows of the table share a feature
  vector, so the order of equal distances plays no part.
\<close>

theorem other_stint_of_reference_returned:
  "player_rows stints_table 1 = [0, 2] \<and>
   recommend_similar_players lib0 stints_loaded 1 2 = (Inr stints_answer, stints_trained) \<and>
   series (similar_players stints_answer) ''player_id'' = [Num (Fin 2), Num (Fin 1)] \<and>
   similar_distances stints_answer = [6 / 5, 8 / 5]"
proof -
  have "player_rows stints_table 1 = [0, 2]" by code_simp
  then show ?thesis using stints_query stints_answer_ids by (simp add: stints_answer_def)
qed

section \<open>Fitting and re-fitting\<close>

text \<open>
  Claim C2, as amended. A similarity query runs \<open>preprocess_data\<close> again, which re-fits
  imputation and scaling on the table current at query time. When the query follows a
  successful \<open>train_models\<close> with no change of the table in between, the re-fit yields the
  matrix and the pipeline state of the fit again, and the query vector is the transform of
  the reference player's row under the state fitted at train time.
\<close>

theorem query_vector_after_fit:
  assumes fit: "preprocess_data L s = (Inr (X, fs, ps), s1)"
      and tr: "train_models L s = (None, s')"
      and qv: "query_vector L s' pid = Some v"
  shows "fst (preprocess_data L s') = Inr (X, fs, ps) \<and>
         scaler s' = Some (fitted_scaler ps) \<and>
         scaler (snd (preprocess_data L s')) = Some (fitted_scaler ps) \<and>
         (\<exists>df idx rest cols. players_df s = Some df \<and> player_rows df pid = idx # rest \<and>
             feature_matrix L df fs = Inr cols \<and>
             v = transform_row ps (map (\<lambda>col. col ! idx) cols))"
proof -
  from preprocess_data_Inr[OF fit] obtain df cols where
    df: "players_df s = Some df" and ne: "rows df \<noteq> []" and
    five: "5 \<le> length (existing_columns df)" and fs: "fs = existing_columns df" and
    fm: "feature_matrix L df fs = Inr cols" and pf: "pipeline_fit cols = Inr ps" and
    X: "X = pipeline_transform ps (length (rows df)) cols"
    by blast
  from train_models_None[OF tr fit] df obtain labels where
    ll: "length labels = length (rows df)" and
    knn: "knn_model s' = Some \<lparr>n_neighbors = min 11 (length X), fit_X = X\<rparr>" and
    sc: "scaler s' = Some (fitted_scaler ps)" and
    df': "players_df s' = Some (set_col df ''cluster'' (map (\<lambda>l. Num (Fin (real l))) labels))"
    by auto
  let ?vs = "map (\<lambda>l. Num (Fin (real l))) labels"
  let ?df' = "set_col df ''cluster'' ?vs"
  have lv: "length ?vs = length (rows df)" using ll by simp
  have len': "length (rows ?df') = length (rows df)" using lv by (simp add: rows_set_col)
  have ne': "rows ?df' \<noteq> []" using ne len' by (metis length_0_conv)
  have ex': "existing_columns ?df' = existing_columns df" by (rule existing_columns_cluster)
  have nc: "''cluster'' \<notin> set fs" using existing_subset[of df] cluster_not_candidate fs by auto
  have fm': "feature_matrix L ?df' (existing_columns ?df') = Inr cols"
    using feature_matrix_cluster[OF lv nc, of L] fm by (simp add: ex' fs)
  have five': "5 \<le> length (existing_columns ?df')" using five by (simp add: ex')
  have pre': "preprocess_data L s' =
     (Inr (X, fs, ps), s'\<lparr>feature_columns := Some candidate_features, scaler := Some (fitted_scaler ps)\<rparr>)"
    using preprocess_data_eval[OF df' ne' five' fm' pf] by (simp add: ex' fs X len')
  have lz: "lazy_train L s' = s'" using knn by (simp add: lazy_train_def)
  from qv obtain idx rest where pr': "player_rows ?df' pid = idx # rest" and v: "v = X ! idx"
    by (auto simp: query_vector_def lz df' pre' Let_def split: list.splits)
  have pr: "player_rows df pid = idx # rest" using pr' player_rows_cluster[OF lv] by simp
  have idx: "idx < length (rows df)" by (rule player_rows_bound[OF pr])
  have "v = transform_row ps (map (\<lambda>col. col ! idx) cols)"
    unfolding v X by (rule pipeline_transform_nth[OF idx feature_matrix_lengths[OF fm]])
  then show ?thesis using pre' sc df pr fm by auto
qed

theorem query_vector_after_fit_witness:
  "preprocess_data lib0 stints_loaded
     = (Inr (stints_X, stints_features, stints_ps),
        stints_loaded\<lparr>feature_columns := Some candidate_features,
                       scaler := Some (fitted_scaler stints_ps)\<rparr>) \<and>
   train_models lib0 stints_loaded = (None, stints_trained) \<and>
   query_vector lib0 stints_trained 1 = Some (stints_X ! 0) \<and>
   fst (preprocess_data lib0 stints_trained) = Inr (stints_X, stints_features, stints_ps) \<and>
   scaler stints_trained = Some (fitted_scaler stints_ps) \<and>
   (\<exists>df idx rest cols. players_df stints_loaded = Some df \<and> player_rows df 1 = idx # rest \<and>
       feature_matrix lib0 df stints_features = Inr cols \<and>
       stints_X ! 0 = transform_row stints_ps (map (\<lambda>col. col ! idx) cols))"
proof -
  have fit: "preprocess_data lib0 stints_loaded
     = (Inr (stints_X, stints_features, stints_ps),
        stints_loaded\<lparr>feature_columns := Some candidate_features,
                       scaler := Some (fitted_scaler stints_ps)\<rparr>)"
    using stints_preprocess[of stints_loaded] by (simp add: stints_loaded_def set_data_def)
  have d: "players_df stints_trained = Some stints_trained_table" by (simp add: stints_trained_def)
  have lz: "lazy_train lib0 stints_trained = stints_trained"
    by (simp add: lazy_train_def stints_trained_def)
  have qv: "query_vector lib0 stints_trained 1 = Some (stints_X ! 0)"
    using stints_trained_preprocess[OF d] stints_player_rows d
    by (simp add: query_vector_def lz Let_def)
  from query_vector_after_fit[OF fit stints_train qv] show ?thesis
    using fit stints_train qv by simp
qed

text \<open>
  Claim C2, as stated, fails: after \<open>set_data\<close> with another table the query re-fits.
  The vector it searches with is the reference row under the new fit, not under the state
  stored at fit time, and the stored scaler is overwritten.
\<close>

theorem query_refits_counterexample:
  "fst (preprocess_data lib0 stints_loaded) = Inr (stints_X, stints_features, stints_ps) \<and>
   scaler stints_reloaded = Some \<lparr>sc_mean = [25, 800, 10, 2, 1], sc_scale = [1, 500, 1, 1, 1]\<rparr> \<and>
   cell_of (rows stints_table2 ! 0) ''minutes_played'' = Num (Fin 200) \<and>
   transform_row stints_ps [Fin 25, Fin 200, Fin 10, Fin 2, Fin 1] = [0, - (6 / 5), 0, 0, 0] \<and>
   query_vector lib0 stints_reloaded 1 = Some [0, - (7 / 5), 0, 0, 0] \<and>
   scaler (snd (recommend_similar_players lib0 stints_reloaded 1 2))
     = Some \<lparr>sc_mean = [25, 1600, 10, 2, 1], sc_scale = [1, 1000, 1, 1, 1]\<rparr>"
proof -
  have a: "fst (preprocess_data lib0 stints_loaded) = Inr (stints_X, stints_features, stints_ps)"
    using stints_preprocess[of stints_loaded] by (simp add: stints_loaded_def set_data_def)
  have b: "cell_of (rows stints_table2 ! 0) ''minutes_played'' = Num (Fin 200)" by code_simp
  have c: "transform_row stints_ps [Fin 25, Fin 200, Fin 10, Fin 2, Fin 1] = [0, - (6 / 5), 0, 0, 0]"
    by code_simp
  show ?thesis
    using a b c stints_reloaded_facts stints_reloaded_query_vector stints_reloaded_query_state
    by (simp add: stints_ps_def stints_ps2_def stints_X_def)
qed

text \<open>
  Claim C3, as amended. When the table has rows and fewer than 5 of the 14 candidate
  features are among its columns, the fit signals the insufficient-features error; the
  index, the cluster model, the scaler and the table are left as they were, and the
  feature schema is set to the 14-name candidate list (so nothing changes at all when a
  fit was attempted before).
\<close>

theorem insufficient_features_fit:
  assumes "players_df s = Some df" and "rows df \<noteq> []"
      and "card (set candidate_features \<inter> set (columns df)) < 5"
  shows "train_models L s = (Some InsufficientFeatures, s\<lparr>feature_columns := Some candidate_features\<rparr>) \<and>
         knn_model (snd (train_models L s)) = knn_model s \<and>
         kmeans_model (snd (train_models L s)) = kmeans_model s \<and>
         scaler (snd (train_models L s)) = scaler s \<and>
         players_df (snd (train_models L s)) = players_df s \<and>
         (feature_columns s = Some candidate_features \<longrightarrow> snd (train_models L s) = s)"
proof -
  have "length (existing_columns df) < 5" using assms(3) by (simp add: length_existing_columns)
  then have "preprocess_data L s = (Inl InsufficientFeatures, s\<lparr>feature_columns := Some candidate_features\<rparr>)"
    using assms(1,2) by (simp add: preprocess_data_def Let_def)
  then have t: "train_models L s = (Some InsufficientFeatures, s\<lparr>feature_columns := Some candidate_features\<rparr>)"
    by (simp add: train_models_def)
  show ?thesis unfolding t by auto
qed

theorem insufficient_features_fit_witness:
  "players_df three_loaded = Some three_features \<and> rows three_features \<noteq> [] \<and>
   card (set candidate_features \<inter> set (columns three_features)) = 3 \<and>
   train_models lib0 three_loaded
     = (Some InsufficientFeatures, three_loaded\<lparr>feature_columns := Some candidate_features\<rparr>) \<and>
   knn_model (snd (train_models lib0 three_loaded)) = None \<and>
   scaler (snd (train_models lib0 three_loaded)) = None \<and>
   players_df (snd (train_models lib0 three_loaded)) = Some three_features"
proof -
  have d: "players_df three_loaded = Some three_features"
    by (simp add: three_loaded_def set_data_def)
  have ne: "rows three_features \<noteq> []" by (simp add: three_features_def)
  have c: "card (set candidate_features \<inter> set (columns three_features)) = 3"
    using length_existing_columns[of three_features] by (simp add: three_existing)
  have c5: "card (set candidate_features \<inter> set (columns three_features)) < 5" using c by simp
  from insufficient_features_fit[OF d ne c5, of lib0] show ?thesis
    using d ne c by (simp add: three_loaded_def set_data_def init_recommender_def)
qed

text \<open>
  Claim C3, as stated, fails: the schema is assigned before the check, so a failed first
  fit changes it from \<open>None\<close> to the candidate list; and on a table without rows the fit
  fails with the no-data error, whatever its columns are.
\<close>

theorem failed_fit_sets_feature_columns:
  "feature_columns three_loaded = None \<and>
   fst (train_models lib0 three_loaded) = Some InsufficientFeatures \<and>
   feature_columns (snd (train_models lib0 three_loaded)) = Some candidate_features \<and>
   fst (train_models lib0 (set_data init_recommender (Some (three_features\<lparr>rows := []\<rparr>))))
     = Some NoData"
proof -
  have "players_df three_loaded = Some three_features" "rows three_features \<noteq> []"
    by (simp_all add: three_loaded_def set_data_def three_features_def)
  then have "preprocess_data lib0 three_loaded
      = (Inl InsufficientFeatures, three_loaded\<lparr>feature_columns := Some candidate_features\<rparr>)"
    by (simp add: preprocess_data_def Let_def three_existing)
  moreover have "fst (train_models lib0 (set_data init_recommender (Some (three_features\<lparr>rows := []\<rparr>))))
     = Some NoData"
    by (simp add: train_models_def preprocess_data_def set_data_def)
  ultimately show ?thesis
    by (simp add: train_models_def three_loaded_def set_data_def init_recommender_def)
qed

end
